theory Spec2Isabelle
  imports Complex_Main "HOL-Library.Log_Nat" "HOL-Library.Multiset"
begin

section \<open>JavaScript strings\<close>

text \<open>
  A JavaScript string is a sequence of UTF-16 code units; \<open>length\<close>, \<open>includes\<close>,
  \<open>trim\<close> and \<open>===\<close> all work on code units. The model keeps them as natural numbers.
  ASCII literals of the source are written \<open>ascii ''...''\<close>; the Korean literals are given
  by their code units, with the English meaning beside them.
\<close>

type_synonym jsstring = "nat list"

definition ascii :: "string \<Rightarrow> jsstring" where
  "ascii s = map of_char s"

fun startsWith :: "jsstring \<Rightarrow> jsstring \<Rightarrow> bool" where
  "startsWith s [] = True"
| "startsWith [] (y # ys) = False"
| "startsWith (x # xs) (y # ys) = (x = y \<and> startsWith xs ys)"

text \<open>\<open>String.prototype.includes\<close>: the argument occurs as a contiguous run of code units.\<close>

fun str_includes :: "jsstring \<Rightarrow> jsstring \<Rightarrow> bool" where
  "str_includes [] sub = (sub = [])"
| "str_includes (c # cs) sub = (startsWith (c # cs) sub \<or> str_includes cs sub)"

text \<open>
  \<open>String.prototype.trim\<close> removes leading and trailing WhiteSpace and LineTerminator
  code points (ECMAScript 12.2, 12.3): TAB, LF, VT, FF, CR, SP, NBSP, U+1680,
  U+2000..U+200A, U+2028, U+2029, U+202F, U+205F, U+3000, U+FEFF.
\<close>

definition isWhiteSpace :: "nat \<Rightarrow> bool" where
  "isWhiteSpace c =
     (c \<in> {0x9, 0xA, 0xB, 0xC, 0xD, 0x20, 0xA0, 0x1680, 0x2028, 0x2029, 0x202F, 0x205F, 0x3000, 0xFEFF}
      \<or> (0x2000 \<le> c \<and> c \<le> 0x200A))"

definition trim :: "jsstring \<Rightarrow> jsstring" where
  "trim s = rev (dropWhile isWhiteSpace (rev (dropWhile isWhiteSpace s)))"

text \<open>
  Page sizes, page numbers, HTTP status codes and counts are JavaScript numbers that hold
  non-negative integers; the model keeps them as \<open>nat\<close>. \<open>String(n)\<close> of such a number is
  its decimal digits as long as the number is below \<open>10^21\<close>; from there on JavaScript
  writes a number in exponent notation, which \<open>String_number\<close> does not follow. The
  numbers that are written into a string here are page sizes, page numbers and HTTP status
  codes.
\<close>

fun digits :: "nat \<Rightarrow> jsstring" where
  "digits n = (if n < 10 then [48 + n] else digits (n div 10) @ [48 + n mod 10])"

declare digits.simps [simp del]

definition String_number :: "nat \<Rightarrow> jsstring" where
  "String_number n = digits n"

section \<open>Constants of tour-api.ts\<close>

definition BASE_URL :: jsstring where
  "BASE_URL = ascii ''https://apis.data.go.kr/B551011/KorService2''"

definition DEFAULT_MOBILE_OS :: jsstring where "DEFAULT_MOBILE_OS = ascii ''ETC''"
definition DEFAULT_MOBILE_APP :: jsstring where "DEFAULT_MOBILE_APP = ascii ''MyTrip''"
definition DEFAULT_TYPE :: jsstring where "DEFAULT_TYPE = ascii ''json''"
definition DEFAULT_NUM_OF_ROWS :: nat where "DEFAULT_NUM_OF_ROWS = 10"
definition DEFAULT_PAGE_NO :: nat where "DEFAULT_PAGE_NO = 1"
definition MAX_RETRIES :: nat where "MAX_RETRIES = 3"
definition RETRY_DELAYS :: "nat list" where "RETRY_DELAYS = [1000, 2000, 4000]"

section \<open>Errors\<close>

datatype TourAPIErrorType =
    API_KEY_MISSING | API_KEY_INVALID | NETWORK_ERROR | TIMEOUT_ERROR | HTTP_ERROR
  | API_ERROR | PARSE_ERROR | VALIDATION_ERROR | UNKNOWN_ERROR

text \<open>
  What a \<open>catch\<close> clause can receive. \<open>JsError t n m\<close> is an \<open>Error\<close> object that is not a
  \<open>TourAPIError\<close>: \<open>t\<close> says whether it is an instance of \<open>TypeError\<close>, \<open>n\<close> is its
  \<open>name\<close>, \<open>m\<close> its \<open>message\<close>. \<open>NonError s\<close> is a thrown value that is not an \<open>Error\<close>,
  with \<open>s = String(value)\<close>. \<open>TourAPIError message statusCode originalError errorType\<close>
  is the class of the source; a constructor call without the fourth argument gets
  \<open>UNKNOWN_ERROR\<close>.
\<close>

datatype thrown =
    JsError bool jsstring jsstring
  | NonError jsstring
  | TourAPIError jsstring "nat option" "thrown option" TourAPIErrorType

fun instanceofError :: "thrown \<Rightarrow> bool" where
  "instanceofError (NonError s) = False"
| "instanceofError e = True"

fun instanceofTypeError :: "thrown \<Rightarrow> bool" where
  "instanceofTypeError (JsError t n m) = t"
| "instanceofTypeError e = False"

fun instanceofTourAPIError :: "thrown \<Rightarrow> bool" where
  "instanceofTourAPIError (TourAPIError m s orig ty) = True"
| "instanceofTourAPIError e = False"

text \<open>\<open>error.name\<close> and \<open>error.message\<close>, read only where the source has checked \<open>instanceof Error\<close>.\<close>

fun errorName :: "thrown \<Rightarrow> jsstring" where
  "errorName (JsError t n m) = n"
| "errorName (TourAPIError m s orig ty) = ascii ''TourAPIError''"
| "errorName (NonError s) = []"

fun errorMessage :: "thrown \<Rightarrow> jsstring" where
  "errorMessage (JsError t n m) = m"
| "errorMessage (TourAPIError m s orig ty) = m"
| "errorMessage (NonError s) = []"

fun errorType :: "thrown \<Rightarrow> TourAPIErrorType option" where
  "errorType (TourAPIError m s orig ty) = Some ty"
| "errorType e = None"

fun statusCode :: "thrown \<Rightarrow> nat option" where
  "statusCode (TourAPIError m s orig ty) = s"
| "statusCode e = None"

fun originalError :: "thrown \<Rightarrow> thrown option" where
  "originalError (TourAPIError m s orig ty) = orig"
| "originalError e = None"

text \<open>\<open>error instanceof Error ? error : new Error(String(error))\<close>\<close>

fun asError :: "thrown \<Rightarrow> thrown" where
  "asError (NonError s) = JsError False (ascii ''Error'') s"
| "asError e = e"

text \<open>The message literals of the transport: "The request timed out.", "Request failed (",
  " attempts): " and "unknown error".\<close>

definition msg_timeout :: jsstring where
  "msg_timeout = [0xC694, 0xCCAD] @ ascii '' '' @ [0xC2DC, 0xAC04, 0xC774] @ ascii '' ''
     @ [0xCD08, 0xACFC, 0xB418, 0xC5C8, 0xC2B5, 0xB2C8, 0xB2E4] @ ascii ''.''"

definition msg_failed_open :: jsstring where
  "msg_failed_open = [0xC694, 0xCCAD] @ ascii '' '' @ [0xC2E4, 0xD328] @ ascii '' (''"

definition msg_failed_close :: jsstring where
  "msg_failed_close = [0xD68C] @ ascii '' '' @ [0xC2DC, 0xB3C4] @ ascii ''): ''"

definition msg_unknown :: jsstring where
  "msg_unknown = [0xC54C] @ ascii '' '' @ [0xC218] @ ascii '' '' @ [0xC5C6, 0xB294] @ ascii '' ''
     @ [0xC5D0, 0xB7EC]"

section \<open>The response envelope\<close>

text \<open>
  \<open>TourAPIResponse<T>\<close> of lib/types/tour.ts. The \<open>item\<close> field is \<open>T | T[]\<close>; the code reads
  \<open>body\<close> and \<open>items\<close> with \<open>?.\<close>, so both may be missing. The counts of the body are
  non-negative integers.
\<close>

datatype 'a item_field = Single 'a | Many "'a list"

record 'a Items =
  item :: "'a item_field"

record 'a Body =
  items :: "'a Items option"
  numOfRows :: "nat option"
  pageNo :: "nat option"
  totalCount :: "nat option"

record Header =
  resultCode :: jsstring
  resultMsg :: jsstring

record 'a Envelope =
  header :: Header
  body :: "'a Body option"

record 'a TourAPIResponse =
  response :: "'a Envelope"

section \<open>HTTP transport\<close>

text \<open>
  A \<open>Response\<close> as the code uses it: \<open>status\<close>, \<open>statusText\<close>, and what \<open>response.json()\<close>
  settles to (a parsed envelope, or the error it rejects with).
\<close>

record 'a Response =
  status :: nat
  statusText :: jsstring
  json :: "thrown + 'a TourAPIResponse"

definition ok :: "'a Response \<Rightarrow> bool" where
  "ok r = (200 \<le> status r \<and> status r \<le> 299)"

text \<open>
  What one \<open>await fetch(url, {signal})\<close> settles to. A timeout of the attempt is the
  rejection with the \<open>AbortError\<close> that \<open>controller.abort()\<close> causes after REQUEST_TIMEOUT.
  The platform function \<open>fetch\<close> is a parameter \<open>fetch url k\<close>: the outcome of the attempt
  made with \<open>retryCount = k\<close>.
\<close>

datatype 'a attempt = Resolved "'a Response" | Rejected thrown

datatype event = Fetch jsstring | Sleep nat

text \<open>The body of the \<open>try\<close> block: the awaited fetch and the \<open>!response.ok\<close> branch.\<close>

definition httpErrorType :: "nat \<Rightarrow> TourAPIErrorType" where
  "httpErrorType st =
     (if st = 401 \<or> st = 403 then API_KEY_INVALID
      else if st = 408 then TIMEOUT_ERROR
      else HTTP_ERROR)"

definition tryBlock :: "'a attempt \<Rightarrow> thrown + 'a Response" where
  "tryBlock a =
     (case a of
        Rejected e \<Rightarrow> Inl e
      | Resolved r \<Rightarrow>
          if \<not> ok r
          then Inl (TourAPIError
                      (ascii ''HTTP '' @ String_number (status r) @ ascii '': '' @ statusText r)
                      (Some (status r)) None (httpErrorType (status r)))
          else Inr r)"

definition isNetworkError :: "thrown \<Rightarrow> bool" where
  "isNetworkError error =
     (instanceofTypeError error \<or>
      (instanceofError error \<and>
        (str_includes (errorMessage error) (ascii ''fetch'') \<or>
         str_includes (errorMessage error) (ascii ''network'') \<or>
         str_includes (errorMessage error) (ascii ''Network''))))"

definition maxRetryError :: "nat \<Rightarrow> thrown \<Rightarrow> thrown" where
  "maxRetryError retryCount error =
     TourAPIError
       (msg_failed_open @ String_number (retryCount + 1) @ msg_failed_close
          @ (if instanceofError error then errorMessage error else msg_unknown))
       None
       (Some (asError error))
       (if isNetworkError error then NETWORK_ERROR else UNKNOWN_ERROR)"

text \<open>\<open>RETRY_DELAYS[retryCount] || RETRY_DELAYS[RETRY_DELAYS.length - 1]\<close>\<close>

definition retryDelay :: "nat \<Rightarrow> nat" where
  "retryDelay retryCount =
     (if retryCount < length RETRY_DELAYS \<and> RETRY_DELAYS ! retryCount \<noteq> 0
      then RETRY_DELAYS ! retryCount
      else RETRY_DELAYS ! (length RETRY_DELAYS - 1))"

text \<open>
  \<open>fetchWithRetry\<close> returns what the promise settles to (\<open>Inl\<close> the thrown value) and the
  trace of what it did: each call of \<open>fetch\<close> and each wait, in order. No caller passes
  \<open>options\<close>, and every caller starts with \<open>retryCount = 0\<close>. The calls of \<open>clearTimeout\<close>
  and of \<open>logError\<close> (console output in development mode) have no part in the result and
  are left out, here and in the functions below.
\<close>

function fetchWithRetry ::
  "(jsstring \<Rightarrow> nat \<Rightarrow> 'a attempt) \<Rightarrow> jsstring \<Rightarrow> nat \<Rightarrow> (thrown + 'a Response) \<times> event list"
where
  "fetchWithRetry fetch url retryCount =
     (case tryBlock (fetch url retryCount) of
        Inr r \<Rightarrow> (Inr r, [Fetch url])
      | Inl error \<Rightarrow>
          if instanceofError error \<and> errorName error = ascii ''AbortError''
          then (Inl (TourAPIError msg_timeout (Some 408) (Some error) TIMEOUT_ERROR), [Fetch url])
          else if retryCount \<ge> MAX_RETRIES
          then (Inl (maxRetryError retryCount error), [Fetch url])
          else (case fetchWithRetry fetch url (retryCount + 1) of
                  (res, evs) \<Rightarrow> (res, Fetch url # Sleep (retryDelay retryCount) # evs)))"
  by pat_completeness auto
termination
  by (relation "measure (\<lambda>(fetch, url, retryCount). MAX_RETRIES - retryCount)") auto

declare fetchWithRetry.simps [simp del]

section \<open>Envelope parser\<close>

text \<open>The literals "API error: " and " (code: ".\<close>

definition msg_api_error :: jsstring where
  "msg_api_error = ascii ''API '' @ [0xC5D0, 0xB7EC] @ ascii '': ''"

definition msg_code :: jsstring where
  "msg_code = ascii '' ('' @ [0xCF54, 0xB4DC] @ ascii '': ''"

definition isApiKeyError :: "jsstring \<Rightarrow> bool" where
  "isApiKeyError rc =
     (rc = ascii ''SERVICE_KEY_IS_NOT_REGISTERED'' \<or>
      rc = ascii ''SERVICE_KEY_IS_NOT_VALID'' \<or>
      rc = ascii ''SERVICE_KEY_IS_NULL'')"

text \<open>
  \<open>parseAPIResponse\<close>. The items are objects (and an array is an object), so
  \<open>!apiResponse.body?.items?.item\<close> holds exactly when \<open>body\<close> or \<open>items\<close> is missing.
\<close>

definition parseAPIResponse :: "'a TourAPIResponse \<Rightarrow> thrown + 'a list" where
  "parseAPIResponse r =
     (let apiResponse = response r in
      if resultCode (header apiResponse) \<noteq> ascii ''0000''
      then
        (let rc = resultCode (header apiResponse);
             rm = (if resultMsg (header apiResponse) = [] then msg_unknown
                   else resultMsg (header apiResponse))
         in Inl (TourAPIError (msg_api_error @ rm @ msg_code @ rc @ ascii '')'') None None
                  (if isApiKeyError rc then API_KEY_INVALID else API_ERROR)))
      else
        (case body apiResponse of
           None \<Rightarrow> Inr []
         | Some b \<Rightarrow>
             (case items b of
                None \<Rightarrow> Inr []
              | Some its \<Rightarrow>
                  (case item its of
                     Many xs \<Rightarrow> Inr xs
                   | Single x \<Rightarrow> Inr [x]))))"

section \<open>Query strings\<close>

text \<open>
  \<open>URLSearchParams.toString()\<close> is the application/x-www-form-urlencoded serializer of the
  URL standard: each name and value is converted to UTF-8 (a lone surrogate becomes
  U+FFFD), a space becomes \<open>+\<close>, the bytes of ASCII letters and digits and of \<open>* - . _\<close>
  stay, every other byte becomes \<open>%XX\<close>; the pairs are joined by \<open>=\<close> and \<open>&\<close>.
\<close>

fun codePoints :: "jsstring \<Rightarrow> nat list" where
  "codePoints [] = []"
| "codePoints [c] = [if 0xD800 \<le> c \<and> c \<le> 0xDFFF then 0xFFFD else c]"
| "codePoints (c # d # cs) =
     (if 0xD800 \<le> c \<and> c \<le> 0xDBFF \<and> 0xDC00 \<le> d \<and> d \<le> 0xDFFF
      then (0x10000 + (c - 0xD800) * 0x400 + (d - 0xDC00)) # codePoints cs
      else (if 0xD800 \<le> c \<and> c \<le> 0xDFFF then 0xFFFD else c) # codePoints (d # cs))"

definition utf8 :: "nat \<Rightarrow> nat list" where
  "utf8 cp =
     (if cp < 0x80 then [cp]
      else if cp < 0x800 then [0xC0 + cp div 0x40, 0x80 + cp mod 0x40]
      else if cp < 0x10000
      then [0xE0 + cp div 0x1000, 0x80 + (cp div 0x40) mod 0x40, 0x80 + cp mod 0x40]
      else [0xF0 + cp div 0x40000, 0x80 + (cp div 0x1000) mod 0x40,
            0x80 + (cp div 0x40) mod 0x40, 0x80 + cp mod 0x40])"

definition hexDigit :: "nat \<Rightarrow> nat" where
  "hexDigit d = (if d < 10 then 48 + d else 55 + d)"

definition urlencodeByte :: "nat \<Rightarrow> jsstring" where
  "urlencodeByte b =
     (if b = 0x20 then [0x2B]
      else if (0x30 \<le> b \<and> b \<le> 0x39) \<or> (0x41 \<le> b \<and> b \<le> 0x5A) \<or> (0x61 \<le> b \<and> b \<le> 0x7A)
              \<or> b = 0x2A \<or> b = 0x2D \<or> b = 0x2E \<or> b = 0x5F
      then [b]
      else [0x25, hexDigit (b div 16), hexDigit (b mod 16)])"

definition urlencode :: "jsstring \<Rightarrow> jsstring" where
  "urlencode s = concat (map urlencodeByte (concat (map utf8 (codePoints s))))"

fun URLSearchParams_toString :: "(jsstring \<times> jsstring) list \<Rightarrow> jsstring" where
  "URLSearchParams_toString [] = []"
| "URLSearchParams_toString [(k, v)] = urlencode k @ [0x3D] @ urlencode v"
| "URLSearchParams_toString ((k, v) # kv # rest) =
     urlencode k @ [0x3D] @ urlencode v @ [0x26] @ URLSearchParams_toString (kv # rest)"

text \<open>A value of \<open>Record<string, string | number | undefined>\<close>, and \<open>String(value)\<close>.\<close>

datatype qvalue = QString jsstring | QNumber nat | QUndefined

fun ofOptional :: "jsstring option \<Rightarrow> qvalue" where
  "ofOptional None = QUndefined"
| "ofOptional (Some s) = QString s"

fun appendParam :: "jsstring \<times> qvalue \<Rightarrow> (jsstring \<times> jsstring) list" where
  "appendParam (key, QUndefined) = []"
| "appendParam (key, QString s) = [(key, s)]"
| "appendParam (key, QNumber n) = [(key, String_number n)]"

definition buildQueryString :: "(jsstring \<times> qvalue) list \<Rightarrow> jsstring" where
  "buildQueryString params = URLSearchParams_toString (concat (map appendParam params))"

section \<open>Service key and common parameters\<close>

text \<open>The two environment variables that \<open>getServiceKey\<close> reads at each call.\<close>

record Env =
  NEXT_PUBLIC_TOUR_API_KEY :: "jsstring option"
  TOUR_API_KEY :: "jsstring option"

text \<open>"The API key is not set. Set the environment variable NEXT_PUBLIC_TOUR_API_KEY or
  TOUR_API_KEY."\<close>

definition msg_key_missing :: jsstring where
  "msg_key_missing = ascii ''API '' @ [0xD0A4, 0xAC00] @ ascii '' ''
     @ [0xC124, 0xC815, 0xB418, 0xC9C0] @ ascii '' '' @ [0xC54A, 0xC558, 0xC2B5, 0xB2C8, 0xB2E4]
     @ ascii ''. NEXT_PUBLIC_TOUR_API_KEY '' @ [0xB610, 0xB294] @ ascii '' TOUR_API_KEY ''
     @ [0xD658, 0xACBD, 0xBCC0, 0xC218, 0xB97C] @ ascii '' ''
     @ [0xC124, 0xC815, 0xD574, 0xC8FC, 0xC138, 0xC694] @ ascii ''.''"

text \<open>Truthiness of an optional string: \<open>undefined\<close> and \<open>''\<close> are falsy.\<close>

fun truthy :: "jsstring option \<Rightarrow> bool" where
  "truthy None = False"
| "truthy (Some s) = (s \<noteq> [])"

definition getServiceKey :: "Env \<Rightarrow> thrown + jsstring" where
  "getServiceKey env =
     (let serviceKey = (if truthy (NEXT_PUBLIC_TOUR_API_KEY env)
                        then NEXT_PUBLIC_TOUR_API_KEY env else TOUR_API_KEY env)
      in case serviceKey of
           None \<Rightarrow> Inl (TourAPIError msg_key_missing None None API_KEY_MISSING)
         | Some k \<Rightarrow>
             if k = [] then Inl (TourAPIError msg_key_missing None None API_KEY_MISSING)
             else Inr k)"

definition getCommonParams :: "Env \<Rightarrow> thrown + (jsstring \<times> qvalue) list" where
  "getCommonParams env =
     (case getServiceKey env of
        Inl e \<Rightarrow> Inl e
      | Inr k \<Rightarrow> Inr [(ascii ''serviceKey'', QString k),
                      (ascii ''MobileOS'', QString DEFAULT_MOBILE_OS),
                      (ascii ''MobileApp'', QString DEFAULT_MOBILE_APP),
                      (ascii ''_type'', QString DEFAULT_TYPE)])"

section \<open>Client operations\<close>

text \<open>\<open>value || dflt\<close> on an optional number: \<open>undefined\<close> and \<open>0\<close> are falsy.\<close>

fun orDefault :: "nat option \<Rightarrow> nat \<Rightarrow> nat" where
  "orDefault None d = d"
| "orDefault (Some n) d = (if n = 0 then d else n)"

text \<open>
  The three statements every \<open>try\<close> block of the client starts with:
  \<open>response = await fetchWithRetry(url)\<close>, \<open>data = await response.json()\<close>,
  \<open>items = parseAPIResponse(data)\<close>; the first that throws ends the block.
\<close>

definition fetchJson ::
  "(jsstring \<Rightarrow> nat \<Rightarrow> 'a attempt) \<Rightarrow> jsstring
    \<Rightarrow> (thrown + 'a TourAPIResponse \<times> 'a list) \<times> event list"
where
  "fetchJson fetch url =
     (case fetchWithRetry fetch url 0 of
        (res, evs) \<Rightarrow>
          (case res of
             Inl e \<Rightarrow> (Inl e, evs)
           | Inr r \<Rightarrow>
               (case json r of
                  Inl e \<Rightarrow> (Inl e, evs)
                | Inr data \<Rightarrow>
                    (case parseAPIResponse data of
                       Inl e \<Rightarrow> (Inl e, evs)
                     | Inr its \<Rightarrow> (Inr (data, its), evs)))))"

text \<open>
  The \<open>catch\<close> clause every operation ends with: a \<open>TourAPIError\<close> is thrown again as it
  is, anything else is wrapped in a \<open>TourAPIError\<close> of the default kind.
\<close>

definition catchClause :: "jsstring \<Rightarrow> thrown \<Rightarrow> thrown" where
  "catchClause msg error =
     (if instanceofTourAPIError error then error
      else TourAPIError msg None (Some (asError error)) UNKNOWN_ERROR)"

record AreaCodeParams =
  ac_numOfRows :: "nat option"
  ac_pageNo :: "nat option"

record AreaBasedListParams =
  abl_areaCode :: "jsstring option"
  abl_contentTypeId :: "jsstring option"
  abl_numOfRows :: "nat option"
  abl_pageNo :: "nat option"

record SearchKeywordParams =
  sk_keyword :: "jsstring option"
  sk_areaCode :: "jsstring option"
  sk_contentTypeId :: "jsstring option"
  sk_numOfRows :: "nat option"
  sk_pageNo :: "nat option"

record DetailParams =
  dp_contentId :: "jsstring option"

record DetailIntroParams = DetailParams +
  dp_contentTypeId :: "jsstring option"


record 'a TourListResponse =
  tl_items :: "'a list"
  tl_totalCount :: nat
  tl_numOfRows :: nat
  tl_pageNo :: nat


text \<open>\<open>data.response.body?.totalCount || 0\<close> and its two siblings.\<close>

definition bodyNumber :: "'a TourAPIResponse \<Rightarrow> ('a Body \<Rightarrow> nat option) \<Rightarrow> nat \<Rightarrow> nat" where
  "bodyNumber data field d =
     (case body (response data) of None \<Rightarrow> d | Some b \<Rightarrow> orDefault (field b) d)"

definition toListResponse :: "'a TourAPIResponse \<times> 'a list \<Rightarrow> 'a TourListResponse" where
  "toListResponse p =
     (case p of (data, tourItems) \<Rightarrow>
        \<lparr>tl_items = tourItems,
         tl_totalCount = bodyNumber data totalCount 0,
         tl_numOfRows = bodyNumber data numOfRows DEFAULT_NUM_OF_ROWS,
         tl_pageNo = bodyNumber data pageNo DEFAULT_PAGE_NO\<rparr>)"

text \<open>The wrapping messages: "An error occurred while looking up the area codes." and so on.\<close>

definition msg_tail :: jsstring where
  "msg_tail = ascii '' '' @ [0xC911] @ ascii '' '' @ [0xC5D0, 0xB7EC, 0xAC00] @ ascii '' ''
     @ [0xBC1C, 0xC0DD, 0xD588, 0xC2B5, 0xB2C8, 0xB2E4] @ ascii ''.''"

definition msg_areaCode :: jsstring where
  "msg_areaCode = [0xC9C0, 0xC5ED, 0xCF54, 0xB4DC] @ ascii '' '' @ [0xC870, 0xD68C] @ msg_tail"

definition msg_areaBasedList :: jsstring where
  "msg_areaBasedList = [0xC9C0, 0xC5ED] @ ascii '' '' @ [0xAE30, 0xBC18] @ ascii '' ''
     @ [0xBAA9, 0xB85D] @ ascii '' '' @ [0xC870, 0xD68C] @ msg_tail"

definition msg_searchKeyword :: jsstring where
  "msg_searchKeyword = [0xD0A4, 0xC6CC, 0xB4DC] @ ascii '' '' @ [0xAC80, 0xC0C9] @ msg_tail"

definition msg_detailCommon :: jsstring where
  "msg_detailCommon = [0xACF5, 0xD1B5] @ ascii '' '' @ [0xC815, 0xBCF4] @ ascii '' ''
     @ [0xC870, 0xD68C] @ msg_tail"

definition msg_detailIntro :: jsstring where
  "msg_detailIntro = [0xC18C, 0xAC1C] @ ascii '' '' @ [0xC815, 0xBCF4] @ ascii '' ''
     @ [0xC870, 0xD68C] @ msg_tail"


definition msg_detailPetTour :: jsstring where
  "msg_detailPetTour = [0xBC18, 0xB824, 0xB3D9, 0xBB3C] @ ascii '' '' @ [0xC815, 0xBCF4]
     @ ascii '' '' @ [0xC870, 0xD68C] @ msg_tail"

text \<open>The validation messages: "The search keyword is required.", "The content ID is
  required.", "The content type ID is required."\<close>

definition msg_required :: jsstring where
  "msg_required = ascii '' '' @ [0xD544, 0xC218, 0xC785, 0xB2C8, 0xB2E4] @ ascii ''.''"

definition msg_keyword_required :: jsstring where
  "msg_keyword_required = [0xAC80, 0xC0C9] @ ascii '' '' @ [0xD0A4, 0xC6CC, 0xB4DC, 0xB294]
     @ msg_required"

definition msg_contentId_required :: jsstring where
  "msg_contentId_required = [0xCF58, 0xD150, 0xCE20] @ ascii '' ID'' @ [0xB294] @ msg_required"

definition msg_contentTypeId_required :: jsstring where
  "msg_contentTypeId_required = [0xCF58, 0xD150, 0xCE20] @ ascii '' '' @ [0xD0C0, 0xC785]
     @ ascii '' ID'' @ [0xB294] @ msg_required"

text \<open>The not-found messages: "The detail information cannot be found.", and the same for
  the intro information and the pet information.\<close>

definition msg_cannot_find :: jsstring where
  "msg_cannot_find = ascii '' '' @ [0xC815, 0xBCF4, 0xB97C] @ ascii '' '' @ [0xCC3E, 0xC744]
     @ ascii '' '' @ [0xC218] @ ascii '' '' @ [0xC5C6, 0xC2B5, 0xB2C8, 0xB2E4] @ ascii ''.''"

definition msg_detail_not_found :: jsstring where
  "msg_detail_not_found = [0xC0C1, 0xC138] @ msg_cannot_find"

definition msg_intro_not_found :: jsstring where
  "msg_intro_not_found = [0xC18C, 0xAC1C] @ msg_cannot_find"

definition msg_pet_not_found :: jsstring where
  "msg_pet_not_found = [0xBC18, 0xB824, 0xB3D9, 0xBB3C] @ msg_cannot_find"

text \<open>\<open>!value || value.trim() === ''\<close> on a required string argument that may be missing.\<close>

fun isBlank :: "jsstring option \<Rightarrow> bool" where
  "isBlank None = True"
| "isBlank (Some s) = (s = [] \<or> trim s = [])"

fun trimmed :: "jsstring option \<Rightarrow> jsstring" where
  "trimmed None = []"
| "trimmed (Some s) = trim s"

definition getAreaCode ::
  "Env \<Rightarrow> (jsstring \<Rightarrow> nat \<Rightarrow> 'a attempt) \<Rightarrow> AreaCodeParams \<Rightarrow> (thrown + 'a list) \<times> event list"
where
  "getAreaCode env fetch params =
     (case getCommonParams env of
        Inl e \<Rightarrow> (Inl e, [])
      | Inr common \<Rightarrow>
          (let queryParams = common @
                 [(ascii ''numOfRows'', QNumber (orDefault (ac_numOfRows params) DEFAULT_NUM_OF_ROWS)),
                  (ascii ''pageNo'', QNumber (orDefault (ac_pageNo params) DEFAULT_PAGE_NO))];
               url = BASE_URL @ ascii ''/areaCode2?'' @ buildQueryString queryParams
           in case fetchJson fetch url of
                (Inl error, evs) \<Rightarrow> (Inl (catchClause msg_areaCode error), evs)
              | (Inr (data, its), evs) \<Rightarrow> (Inr its, evs)))"

definition getAreaBasedList ::
  "Env \<Rightarrow> (jsstring \<Rightarrow> nat \<Rightarrow> 'a attempt) \<Rightarrow> AreaBasedListParams
    \<Rightarrow> (thrown + 'a TourListResponse) \<times> event list"
where
  "getAreaBasedList env fetch params =
     (case getCommonParams env of
        Inl e \<Rightarrow> (Inl e, [])
      | Inr common \<Rightarrow>
          (let queryParams = common @
                 [(ascii ''areaCode'', ofOptional (abl_areaCode params)),
                  (ascii ''contentTypeId'', ofOptional (abl_contentTypeId params)),
                  (ascii ''numOfRows'', QNumber (orDefault (abl_numOfRows params) DEFAULT_NUM_OF_ROWS)),
                  (ascii ''pageNo'', QNumber (orDefault (abl_pageNo params) DEFAULT_PAGE_NO))];
               url = BASE_URL @ ascii ''/areaBasedList2?'' @ buildQueryString queryParams
           in case fetchJson fetch url of
                (Inl error, evs) \<Rightarrow> (Inl (catchClause msg_areaBasedList error), evs)
              | (Inr p, evs) \<Rightarrow> (Inr (toListResponse p), evs)))"

definition searchKeyword ::
  "Env \<Rightarrow> (jsstring \<Rightarrow> nat \<Rightarrow> 'a attempt) \<Rightarrow> SearchKeywordParams
    \<Rightarrow> (thrown + 'a TourListResponse) \<times> event list"
where
  "searchKeyword env fetch params =
     (if isBlank (sk_keyword params)
      then (Inl (TourAPIError msg_keyword_required None None VALIDATION_ERROR), [])
      else
        (case getCommonParams env of
           Inl e \<Rightarrow> (Inl e, [])
         | Inr common \<Rightarrow>
             (let queryParams = common @
                    [(ascii ''keyword'', QString (trimmed (sk_keyword params))),
                     (ascii ''areaCode'', ofOptional (sk_areaCode params)),
                     (ascii ''contentTypeId'', ofOptional (sk_contentTypeId params)),
                     (ascii ''numOfRows'', QNumber (orDefault (sk_numOfRows params) DEFAULT_NUM_OF_ROWS)),
                     (ascii ''pageNo'', QNumber (orDefault (sk_pageNo params) DEFAULT_PAGE_NO))];
                  url = BASE_URL @ ascii ''/searchKeyword2?'' @ buildQueryString queryParams
              in case fetchJson fetch url of
                   (Inl error, evs) \<Rightarrow> (Inl (catchClause msg_searchKeyword error), evs)
                 | (Inr p, evs) \<Rightarrow> (Inr (toListResponse p), evs))))"

text \<open>
  The end of the \<open>try\<close> block of a single-entity lookup: \<open>items[0]\<close>, and the throw when it
  is missing. The \<open>TourAPIError\<close> is constructed with a message only, so its kind is the
  default of the constructor; the \<open>catch\<close> clause throws it again as it is.
\<close>

definition firstOrThrow :: "jsstring \<Rightarrow> jsstring \<Rightarrow> 'a list \<Rightarrow> thrown + 'a" where
  "firstOrThrow notFoundMsg wrapMsg its =
     (case its of
        [] \<Rightarrow> Inl (catchClause wrapMsg (TourAPIError notFoundMsg None None UNKNOWN_ERROR))
      | x # rest \<Rightarrow> Inr x)"

definition getDetailCommon ::
  "Env \<Rightarrow> (jsstring \<Rightarrow> nat \<Rightarrow> 'a attempt) \<Rightarrow> DetailParams \<Rightarrow> (thrown + 'a) \<times> event list"
where
  "getDetailCommon env fetch params =
     (if isBlank (dp_contentId params)
      then (Inl (TourAPIError msg_contentId_required None None VALIDATION_ERROR), [])
      else
        (case getCommonParams env of
           Inl e \<Rightarrow> (Inl e, [])
         | Inr common \<Rightarrow>
             (let queryParams = common @
                    [(ascii ''contentId'', QString (trimmed (dp_contentId params)))];
                  url = BASE_URL @ ascii ''/detailCommon2?'' @ buildQueryString queryParams
              in case fetchJson fetch url of
                   (Inl error, evs) \<Rightarrow> (Inl (catchClause msg_detailCommon error), evs)
                 | (Inr (data, its), evs) \<Rightarrow>
                     (firstOrThrow msg_detail_not_found msg_detailCommon its, evs))))"

definition getDetailIntro ::
  "Env \<Rightarrow> (jsstring \<Rightarrow> nat \<Rightarrow> 'a attempt) \<Rightarrow> DetailIntroParams \<Rightarrow> (thrown + 'a) \<times> event list"
where
  "getDetailIntro env fetch params =
     (if isBlank (dp_contentId params)
      then (Inl (TourAPIError msg_contentId_required None None VALIDATION_ERROR), [])
      else if isBlank (dp_contentTypeId params)
      then (Inl (TourAPIError msg_contentTypeId_required None None VALIDATION_ERROR), [])
      else
        (case getCommonParams env of
           Inl e \<Rightarrow> (Inl e, [])
         | Inr common \<Rightarrow>
             (let queryParams = common @
                    [(ascii ''contentId'', QString (trimmed (dp_contentId params))),
                     (ascii ''contentTypeId'', QString (trimmed (dp_contentTypeId params)))];
                  url = BASE_URL @ ascii ''/detailIntro2?'' @ buildQueryString queryParams
              in case fetchJson fetch url of
                   (Inl error, evs) \<Rightarrow> (Inl (catchClause msg_detailIntro error), evs)
                 | (Inr (data, its), evs) \<Rightarrow>
                     (firstOrThrow msg_intro_not_found msg_detailIntro its, evs))))"


definition getDetailPetTour ::
  "Env \<Rightarrow> (jsstring \<Rightarrow> nat \<Rightarrow> 'a attempt) \<Rightarrow> DetailParams \<Rightarrow> (thrown + 'a) \<times> event list"
where
  "getDetailPetTour env fetch params =
     (if isBlank (dp_contentId params)
      then (Inl (TourAPIError msg_contentId_required None None VALIDATION_ERROR), [])
      else
        (case getCommonParams env of
           Inl e \<Rightarrow> (Inl e, [])
         | Inr common \<Rightarrow>
             (let queryParams = common @
                    [(ascii ''contentId'', QString (trimmed (dp_contentId params)))];
                  url = BASE_URL @ ascii ''/detailPetTour2?'' @ buildQueryString queryParams
              in case fetchJson fetch url of
                   (Inl error, evs) \<Rightarrow> (Inl (catchClause msg_detailPetTour error), evs)
                 | (Inr (data, its), evs) \<Rightarrow>
                     (firstOrThrow msg_pet_not_found msg_detailPetTour its, evs))))"

section \<open>Statistics: stats-api.ts\<close>

record AreaCode =
  code :: jsstring
  name :: jsstring
  rnum :: "jsstring option"

record RegionStats =
  r_areaCode :: jsstring
  r_name :: jsstring
  r_count :: nat

text \<open>
  \<open>percentage\<close> is a double that \<open>Number("d.dd")\<close> produces; the model keeps the rational
  number that the double is.
\<close>

record TypeStats =
  t_contentTypeId :: jsstring
  t_name :: jsstring
  t_count :: nat
  t_percentage :: rat

text \<open>A call of \<open>console.warn\<close> or \<open>console.error\<close>, with its arguments.\<close>

datatype console = ConsoleWarn "jsstring list" | ConsoleError "jsstring list"

text \<open>\<open>error instanceof Error ? error.message : String(error)\<close>\<close>

fun messageOrString :: "thrown \<Rightarrow> jsstring" where
  "messageOrString (NonError s) = s"
| "messageOrString e = errorMessage e"

text \<open>\<open>CONTENT_TYPE\<close> of lib/types/tour.ts; \<open>Object.values\<close> lists it in the order written.\<close>

definition CONTENT_TYPE :: "(string \<times> jsstring) list" where
  "CONTENT_TYPE =
     [(''TOURIST_SPOT'', ascii ''12''),
      (''CULTURAL_FACILITY'', ascii ''14''),
      (''FESTIVAL'', ascii ''15''),
      (''TOUR_COURSE'', ascii ''25''),
      (''LEISURE_SPORTS'', ascii ''28''),
      (''ACCOMMODATION'', ascii ''32''),
      (''SHOPPING'', ascii ''38''),
      (''RESTAURANT'', ascii ''39'')]"

text \<open>\<open>TYPE_NAME_MAP\<close>: the Korean names of the eight content types (tourist spot, cultural
  facility, festival/event, tour course, leisure sports, accommodation, shopping,
  restaurant).\<close>

definition TYPE_NAME_MAP :: "(jsstring \<times> jsstring) list" where
  "TYPE_NAME_MAP =
     [(ascii ''12'', [0xAD00, 0xAD11, 0xC9C0]),
      (ascii ''14'', [0xBB38, 0xD654, 0xC2DC, 0xC124]),
      (ascii ''15'', [0xCD95, 0xC81C] @ ascii ''/'' @ [0xD589, 0xC0AC]),
      (ascii ''25'', [0xC5EC, 0xD589, 0xCF54, 0xC2A4]),
      (ascii ''28'', [0xB808, 0xD3EC, 0xCE20]),
      (ascii ''32'', [0xC219, 0xBC15]),
      (ascii ''38'', [0xC1FC, 0xD551]),
      (ascii ''39'', [0xC74C, 0xC2DD, 0xC810])]"

text \<open>The log and error literals of stats-api.ts: "[getRegionStats] The area codes cannot be
  looked up.", "[getRegionStats] region ", " statistics collection failed:",
  "[getTypeStats] type ", "[getTypeStats] The total number of tourist spots is 0.",
  "type ", "An error occurred while collecting the statistics by region / by type / of the
  summary."\<close>

definition msg_no_area_codes :: jsstring where
  "msg_no_area_codes = ascii ''[getRegionStats] '' @ [0xC9C0, 0xC5ED] @ ascii '' ''
     @ [0xCF54, 0xB4DC, 0xB97C] @ ascii '' '' @ [0xC870, 0xD68C, 0xD560] @ ascii '' '' @ [0xC218]
     @ ascii '' '' @ [0xC5C6, 0xC2B5, 0xB2C8, 0xB2E4] @ ascii ''.''"

definition msg_region :: jsstring where
  "msg_region = ascii ''[getRegionStats] '' @ [0xC9C0, 0xC5ED] @ ascii '' ''"

definition msg_collect_failed :: jsstring where
  "msg_collect_failed = ascii '' '' @ [0xD1B5, 0xACC4] @ ascii '' '' @ [0xC218, 0xC9D1]
     @ ascii '' '' @ [0xC2E4, 0xD328] @ ascii '':''"

definition msg_type :: jsstring where
  "msg_type = [0xD0C0, 0xC785] @ ascii '' ''"

definition msg_total_zero :: jsstring where
  "msg_total_zero = ascii ''[getTypeStats] '' @ [0xC804, 0xCCB4] @ ascii '' ''
     @ [0xAD00, 0xAD11, 0xC9C0] @ ascii '' '' @ [0xC218, 0xAC00] @ ascii '' 0''
     @ [0xC785, 0xB2C8, 0xB2E4] @ ascii ''.''"

definition msg_collect_tail :: jsstring where
  "msg_collect_tail = ascii '' '' @ [0xD1B5, 0xACC4] @ ascii '' '' @ [0xC218, 0xC9D1] @ msg_tail"

definition msg_regionStats :: jsstring where
  "msg_regionStats = [0xC9C0, 0xC5ED, 0xBCC4] @ msg_collect_tail"

definition msg_typeStats :: jsstring where
  "msg_typeStats = [0xD0C0, 0xC785, 0xBCC4] @ msg_collect_tail"

definition msg_statsSummary :: jsstring where
  "msg_statsSummary = [0xD1B5, 0xACC4] @ ascii '' '' @ [0xC694, 0xC57D] @ ascii '' ''
     @ [0xC815, 0xBCF4] @ ascii '' '' @ [0xC0DD, 0xC131] @ msg_tail"

text \<open>
  The callback that \<open>getRegionStats\<close> maps over the area codes. It never rejects: its
  \<open>catch\<close> logs and returns \<open>null\<close> (\<open>None\<close>). The calls run concurrently; each depends
  only on its own requests, so the model runs them one after the other and lists the log
  lines in the order of the area codes.
\<close>

definition regionStat ::
  "Env \<Rightarrow> (jsstring \<Rightarrow> nat \<Rightarrow> 'a attempt) \<Rightarrow> AreaCode \<Rightarrow> RegionStats option \<times> console list"
where
  "regionStat env fetch areaCode =
     (case fst (getAreaBasedList env fetch
                  \<lparr>abl_areaCode = Some (code areaCode), abl_contentTypeId = None,
                   abl_numOfRows = Some 1, abl_pageNo = Some 1\<rparr>) of
        Inr resp \<Rightarrow>
          (Some \<lparr>r_areaCode = code areaCode, r_name = name areaCode,
                 r_count = tl_totalCount resp\<rparr>, [])
      | Inl error \<Rightarrow>
          (None,
           [ConsoleError
              [msg_region @ name areaCode @ ascii '' ('' @ code areaCode @ ascii '')''
                 @ msg_collect_failed,
               messageOrString error]]))"

text \<open>
  \<open>Promise.allSettled\<close> followed by the two filters: the fulfilled values that are not
  \<open>null\<close>, in the order of the promises.
\<close>

fun fulfilledValues :: "'a option list \<Rightarrow> 'a list" where
  "fulfilledValues [] = []"
| "fulfilledValues (None # rs) = fulfilledValues rs"
| "fulfilledValues (Some v # rs) = v # fulfilledValues rs"

definition getRegionStats ::
  "Env \<Rightarrow> (jsstring \<Rightarrow> nat \<Rightarrow> AreaCode attempt) \<Rightarrow> (jsstring \<Rightarrow> nat \<Rightarrow> 'a attempt)
    \<Rightarrow> (thrown + RegionStats list) \<times> console list"
where
  "getRegionStats env fetchArea fetchList =
     (case fst (getAreaCode env fetchArea \<lparr>ac_numOfRows = Some 100, ac_pageNo = Some 1\<rparr>) of
        Inl error \<Rightarrow> (Inl (catchClause msg_regionStats error), [])
      | Inr areaCodes \<Rightarrow>
          if length areaCodes = 0 then (Inr [], [ConsoleWarn [msg_no_area_codes]])
          else
            (let results = map (regionStat env fetchList) areaCodes
             in (Inr (fulfilledValues (map fst results)), concat (map snd results))))"

text \<open>\<open>TYPE_NAME_MAP[contentTypeId] || `... ${contentTypeId}`\<close>\<close>

definition typeName :: "jsstring \<Rightarrow> jsstring" where
  "typeName contentTypeId =
     (case map_of TYPE_NAME_MAP contentTypeId of
        None \<Rightarrow> msg_type @ contentTypeId
      | Some n \<Rightarrow> if n = [] then msg_type @ contentTypeId else n)"

definition typeStat ::
  "Env \<Rightarrow> (jsstring \<Rightarrow> nat \<Rightarrow> 'a attempt) \<Rightarrow> jsstring \<Rightarrow> TypeStats option \<times> console list"
where
  "typeStat env fetch contentTypeId =
     (case fst (getAreaBasedList env fetch
                  \<lparr>abl_areaCode = None, abl_contentTypeId = Some contentTypeId,
                   abl_numOfRows = Some 1, abl_pageNo = Some 1\<rparr>) of
        Inr resp \<Rightarrow>
          (Some \<lparr>t_contentTypeId = contentTypeId, t_name = typeName contentTypeId,
                 t_count = tl_totalCount resp, t_percentage = 0\<rparr>, [])
      | Inl error \<Rightarrow>
          (None,
           [ConsoleError
              [ascii ''[getTypeStats] '' @ msg_type @ contentTypeId @ msg_collect_failed,
               messageOrString error]]))"

subsection \<open>The percentage: double arithmetic\<close>

text \<open>
  \<open>Number(((stat.count / totalCount) * 100).toFixed(2))\<close> is computed on IEEE 754 doubles.
  A double is a rational number; \<open>toDouble x\<close> is the double nearest to a positive rational
  \<open>x\<close> in the normal range (53 significant bits, ties to even), which is what division,
  multiplication, addition and \<open>Number(string)\<close> return for the exact result \<open>x\<close>. A
  count is the integer that a double holds; counts below \<open>2^53\<close> are all doubles. The
  sum of two counts is again an integer (from \<open>2^53\<close> on, every double is one), the
  nearest double to the exact sum: \<open>plusNumber\<close>. \<open>toFixed(2)\<close> takes the integer
  \<open>n\<close> for which \<open>n / 100\<close> is nearest to the exact value of the double, the larger one
  of two, and prints \<open>n / 100\<close> with two decimals.
\<close>

definition roundTiesToEven :: "rat \<Rightarrow> int" where
  "roundTiesToEven y =
     (let f = \<lfloor>y\<rfloor>; r = y - of_int f
      in if r < 1 / 2 then f else if r > 1 / 2 then f + 1 else if even f then f else f + 1)"

text \<open>The binary exponent \<open>e\<close> of a positive rational: \<open>2^e \<le> x < 2^(e+1)\<close>.\<close>

definition binExponent :: "rat \<Rightarrow> int" where
  "binExponent x =
     (case quotient_of x of
        (p, q) \<Rightarrow>
          (let d = int (floorlog 2 (nat p)) - int (floorlog 2 (nat q))
           in if 2 powi d \<le> x then d else d - 1))"

definition toDouble :: "rat \<Rightarrow> rat" where
  "toDouble x =
     (if x = 0 then 0
      else (let e = binExponent x - 52
            in of_int (roundTiesToEven (x / 2 powi e)) * 2 powi e))"

definition toFixed2 :: "rat \<Rightarrow> int" where
  "toFixed2 x = \<lfloor>x * 100 + 1 / 2\<rfloor>"

definition percentageOf :: "nat \<Rightarrow> nat \<Rightarrow> rat" where
  "percentageOf cnt total_count =
     toDouble (of_int (toFixed2 (toDouble (toDouble (of_nat cnt / of_nat total_count) * 100))) / 100)"

definition plusNumber :: "nat \<Rightarrow> nat \<Rightarrow> nat" where
  "plusNumber a b = nat \<lfloor>toDouble (of_nat a + of_nat b)\<rfloor>"

definition getTypeStats ::
  "Env \<Rightarrow> (jsstring \<Rightarrow> nat \<Rightarrow> 'a attempt) \<Rightarrow> (thrown + TypeStats list) \<times> console list"
where
  "getTypeStats env fetch =
     (let contentTypeIds = map snd CONTENT_TYPE;
          results = map (typeStat env fetch) contentTypeIds;
          typeStats = fulfilledValues (map fst results);
          logs = concat (map snd results);
          total_count = foldl (\<lambda>sum stat. plusNumber sum (t_count stat)) 0 typeStats
      in if total_count = 0 then (Inr typeStats, logs @ [ConsoleWarn [msg_total_zero]])
         else (Inr (map (\<lambda>stat. stat\<lparr>t_percentage := percentageOf (t_count stat) total_count\<rparr>) typeStats),
               logs))"

subsection \<open>The summary\<close>

text \<open>
  \<open>Array.prototype.sort\<close> with a comparison function: for a consistent comparator the
  result is the stable ordering of the elements (ECMAScript 2019), which insertion from
  the right into a sorted list computes.
\<close>

fun insertWith :: "('a \<Rightarrow> 'a \<Rightarrow> int) \<Rightarrow> 'a \<Rightarrow> 'a list \<Rightarrow> 'a list" where
  "insertWith cmp x [] = [x]"
| "insertWith cmp x (y # ys) = (if cmp x y \<le> 0 then x # y # ys else y # insertWith cmp x ys)"

definition sortWith :: "('a \<Rightarrow> 'a \<Rightarrow> int) \<Rightarrow> 'a list \<Rightarrow> 'a list" where
  "sortWith cmp xs = foldr (insertWith cmp) xs []"

record StatsSummary =
  totalCount_s :: nat
  topRegions :: "RegionStats list"
  topTypes :: "TypeStats list"
  lastUpdated :: nat

text \<open>
  \<open>getStatsSummary\<close>; \<open>now\<close> is what \<open>new Date()\<close> gives. \<open>Promise.all\<close> rejects with the
  rejection of \<open>getRegionStats\<close> or of \<open>getTypeStats\<close>.
\<close>

definition getStatsSummary ::
  "Env \<Rightarrow> (jsstring \<Rightarrow> nat \<Rightarrow> AreaCode attempt) \<Rightarrow> (jsstring \<Rightarrow> nat \<Rightarrow> 'a attempt) \<Rightarrow> nat
    \<Rightarrow> (thrown + StatsSummary) \<times> console list"
where
  "getStatsSummary env fetchArea fetchList now =
     (case (getRegionStats env fetchArea fetchList, getTypeStats env fetchList) of
        ((Inl error, logs1), (res2, logs2)) \<Rightarrow>
          (Inl (catchClause msg_statsSummary error), logs1 @ logs2)
      | ((Inr regionStats, logs1), (Inl error, logs2)) \<Rightarrow>
          (Inl (catchClause msg_statsSummary error), logs1 @ logs2)
      | ((Inr regionStats, logs1), (Inr typeStats, logs2)) \<Rightarrow>
          (Inr \<lparr>totalCount_s = foldl (\<lambda>sum stat. plusNumber sum (t_count stat)) 0 typeStats,
                topRegions = take 3 (sortWith (\<lambda>a b. int (r_count b) - int (r_count a)) regionStats),
                topTypes = take 3 (sortWith (\<lambda>a b. int (t_count b) - int (t_count a)) typeStats),
                lastUpdated = now\<rparr>,
           logs1 @ logs2))"

section \<open>Vocabulary of the properties\<close>

text \<open>
  An attempt times out when \<open>fetch\<close> rejects with the \<open>AbortError\<close> of the timer. It fails
  in another way when \<open>fetch\<close> rejects with anything else (a network error is a
  \<open>TypeError\<close>) or resolves with a status outside 200..299.
\<close>

definition isAbortError :: "thrown \<Rightarrow> bool" where
  "isAbortError e = (instanceofError e \<and> errorName e = ascii ''AbortError'')"

definition failsOtherwise :: "'a attempt \<Rightarrow> bool" where
  "failsOtherwise a = (case a of Rejected e \<Rightarrow> \<not> isAbortError e | Resolved r \<Rightarrow> \<not> ok r)"

text \<open>
  The trace of \<open>k\<close> failed attempts followed by one more attempt: the waits between
  consecutive attempts are the first \<open>k\<close> of 1 s, 2 s and 4 s.
\<close>

definition backoffTrace :: "jsstring \<Rightarrow> nat \<Rightarrow> event list" where
  "backoffTrace url k = concat (map (\<lambda>d. [Fetch url, Sleep d]) (take k [1000, 2000, 4000])) @ [Fetch url]"

subsection \<open>Example upstreams\<close>

definition exampleUrl :: jsstring where
  "exampleUrl = BASE_URL @ ascii ''/areaCode2?serviceKey=k''"

definition serverError :: "AreaCode Response" where
  "serverError = \<lparr>status = 500, statusText = ascii ''Internal Server Error'',
                   json = Inl (JsError False (ascii ''SyntaxError'') (ascii ''Unexpected token''))\<rparr>"

definition emptyEnvelope :: "AreaCode TourAPIResponse" where
  "emptyEnvelope =
     \<lparr>response = \<lparr>header = \<lparr>resultCode = ascii ''0000'', resultMsg = ascii ''OK''\<rparr>,
                   body = Some \<lparr>items = None, numOfRows = Some 0, pageNo = Some 1,
                                totalCount = Some 0\<rparr>\<rparr>\<rparr>"

definition okEmpty :: "AreaCode Response" where
  "okEmpty = \<lparr>status = 200, statusText = ascii ''OK'', json = Inr emptyEnvelope\<rparr>"

definition abortError :: thrown where
  "abortError = JsError False (ascii ''AbortError'') (ascii ''This operation was aborted'')"

definition networkError :: thrown where
  "networkError = JsError True (ascii ''TypeError'') (ascii ''fetch failed'')"

definition flakyFetch :: "jsstring \<Rightarrow> nat \<Rightarrow> AreaCode attempt" where
  "flakyFetch url k = (if k < 2 then Resolved serverError else Resolved okEmpty)"

definition timeoutFetch :: "jsstring \<Rightarrow> nat \<Rightarrow> AreaCode attempt" where
  "timeoutFetch url k = Rejected abortError"

definition serverErrorFetch :: "jsstring \<Rightarrow> nat \<Rightarrow> AreaCode attempt" where
  "serverErrorFetch url k = Resolved serverError"

definition offlineFetch :: "jsstring \<Rightarrow> nat \<Rightarrow> AreaCode attempt" where
  "offlineFetch url k = Rejected networkError"

text \<open>
  The result codes that \<open>parseAPIResponse\<close> takes for a rejected service key.
\<close>

definition keyErrorCodes :: "jsstring set" where
  "keyErrorCodes = {ascii ''SERVICE_KEY_IS_NOT_REGISTERED'', ascii ''SERVICE_KEY_IS_NOT_VALID'',
                    ascii ''SERVICE_KEY_IS_NULL''}"

text \<open>
  Two error envelopes: a service key that is not registered, and a request limit that is
  exceeded (result code 22).
\<close>

definition keyRejected :: "AreaCode TourAPIResponse" where
  "keyRejected =
     \<lparr>response = \<lparr>header = \<lparr>resultCode = ascii ''SERVICE_KEY_IS_NOT_REGISTERED'',
                              resultMsg = ascii ''SERVICE KEY IS NOT REGISTERED ERROR.''\<rparr>,
                   body = None\<rparr>\<rparr>"

definition limitExceeded :: "AreaCode TourAPIResponse" where
  "limitExceeded =
     \<lparr>response = \<lparr>header = \<lparr>resultCode = ascii ''22'',
                              resultMsg = ascii ''LIMITED_NUMBER_OF_SERVICE_REQUESTS_EXCEEDS_ERROR''\<rparr>,
                   body = None\<rparr>\<rparr>"

text \<open>
  A required string argument that is missing, empty, or made of white space only.
\<close>

fun blankArgument :: "jsstring option \<Rightarrow> bool" where
  "blankArgument None = True"
| "blankArgument (Some s) = list_all isWhiteSpace s"

text \<open>
  An environment with the service key under the fallback name, and an upstream that
  answers every attempt with status 200 and a success envelope without items.
\<close>

definition exampleEnv :: Env where
  "exampleEnv = \<lparr>NEXT_PUBLIC_TOUR_API_KEY = None, TOUR_API_KEY = Some (ascii ''key+1/a='')\<rparr>"

definition okFetch :: "jsstring \<Rightarrow> nat \<Rightarrow> AreaCode attempt" where
  "okFetch url k = Resolved okEmpty"

text \<open>
  The URL of a request, from the path of the endpoint and the query parameters, and the
  URLs that a trace of events has requested, in order.
\<close>

definition requestUrl :: "jsstring \<Rightarrow> (jsstring \<times> qvalue) list \<Rightarrow> jsstring" where
  "requestUrl path queryParams = BASE_URL @ path @ buildQueryString queryParams"


text \<open>
  The upstream returns zero records for the request of \<open>url\<close>: the request, with the
  retries it takes, ends in a 2xx response whose body is an envelope that parses to no
  record. Nothing is said of the answers to any other URL.
\<close>

definition findsNothing :: "(jsstring \<Rightarrow> nat \<Rightarrow> 'a attempt) \<Rightarrow> jsstring \<Rightarrow> bool" where
  "findsNothing fetch url =
     (case fst (fetchWithRetry fetch url 0) of
        Inl e \<Rightarrow> False
      | Inr r \<Rightarrow> (case json r of Inl e \<Rightarrow> False | Inr data \<Rightarrow> parseAPIResponse data = Inr []))"

text \<open>
  Two area codes (Seoul, Busan) and a success envelope with a given \<open>item\<close> field and
  \<open>totalCount\<close>.
\<close>

definition seoul :: AreaCode where
  "seoul = \<lparr>code = ascii ''1'', name = [0xC11C, 0xC6B8], rnum = Some (ascii ''1'')\<rparr>"

definition busan :: AreaCode where
  "busan = \<lparr>code = ascii ''6'', name = [0xBD80, 0xC0B0], rnum = Some (ascii ''2'')\<rparr>"

definition envelopeOf :: "'a item_field option \<Rightarrow> nat \<Rightarrow> 'a TourAPIResponse" where
  "envelopeOf its n =
     \<lparr>response = \<lparr>header = \<lparr>resultCode = ascii ''0000'', resultMsg = ascii ''OK''\<rparr>,
                   body = Some \<lparr>items = map_option (\<lambda>i. \<lparr>item = i\<rparr>) its, numOfRows = Some 1,
                                pageNo = Some 1, totalCount = Some n\<rparr>\<rparr>\<rparr>"

text \<open>
  An upstream that holds one record, under the content id 126508, and answers a request
  for any other id with a success envelope without items.
\<close>

definition catalogFetch :: "jsstring \<Rightarrow> nat \<Rightarrow> AreaCode attempt" where
  "catalogFetch url k =
     (if str_includes url (ascii ''contentId=126508'')
      then Resolved \<lparr>status = 200, statusText = ascii ''OK'',
                     json = Inr (envelopeOf (Some (Single seoul)) 1)\<rparr>
      else Resolved okEmpty)"

text \<open>
  The listing call that \<open>getRegionStats\<close> makes for one region, and the line it logs when
  that call fails.
\<close>

definition regionCall ::
  "Env \<Rightarrow> (jsstring \<Rightarrow> nat \<Rightarrow> 'a attempt) \<Rightarrow> AreaCode \<Rightarrow> thrown + 'a TourListResponse" where
  "regionCall env fetch a =
     fst (getAreaBasedList env fetch
            \<lparr>abl_areaCode = Some (code a), abl_contentTypeId = None,
             abl_numOfRows = Some 1, abl_pageNo = Some 1\<rparr>)"

definition regionFailureLog ::
  "Env \<Rightarrow> (jsstring \<Rightarrow> nat \<Rightarrow> 'a attempt) \<Rightarrow> AreaCode \<Rightarrow> console" where
  "regionFailureLog env fetch a =
     ConsoleError
       [msg_region @ name a @ ascii '' ('' @ code a @ ascii '')'' @ msg_collect_failed,
        messageOrString (projl (regionCall env fetch a))]"

text \<open>
  The listing call that \<open>getTypeStats\<close> makes for one content type, the line it logs when
  that call fails, and the eight content type ids.
\<close>

definition typeCall ::
  "Env \<Rightarrow> (jsstring \<Rightarrow> nat \<Rightarrow> 'a attempt) \<Rightarrow> jsstring \<Rightarrow> thrown + 'a TourListResponse" where
  "typeCall env fetch contentTypeId =
     fst (getAreaBasedList env fetch
            \<lparr>abl_areaCode = None, abl_contentTypeId = Some contentTypeId,
             abl_numOfRows = Some 1, abl_pageNo = Some 1\<rparr>)"

definition typeFailureLog ::
  "Env \<Rightarrow> (jsstring \<Rightarrow> nat \<Rightarrow> 'a attempt) \<Rightarrow> jsstring \<Rightarrow> console" where
  "typeFailureLog env fetch contentTypeId =
     ConsoleError
       [ascii ''[getTypeStats] '' @ msg_type @ contentTypeId @ msg_collect_failed,
        messageOrString (projl (typeCall env fetch contentTypeId))]"

definition contentTypeIds :: "jsstring list" where
  "contentTypeIds = map ascii [''12'', ''14'', ''15'', ''25'', ''28'', ''32'', ''38'', ''39'']"

text \<open>
  A third area code (Jeju), and an upstream for the statistics: it answers the area-code
  lookup with the three area codes, every listing with \<open>totalCount = 100\<close> except that of
  content type 39 (\<open>totalCount = 500\<close>), and is unreachable for region 6 and for content
  type 25.
\<close>

definition jeju :: AreaCode where
  "jeju = \<lparr>code = ascii ''39'', name = [0xC81C, 0xC8FC], rnum = Some (ascii ''3'')\<rparr>"

definition countResponse :: "nat \<Rightarrow> AreaCode Response" where
  "countResponse n = \<lparr>status = 200, statusText = ascii ''OK'', json = Inr (envelopeOf None n)\<rparr>"

definition areaCodeResponse :: "AreaCode Response" where
  "areaCodeResponse =
     \<lparr>status = 200, statusText = ascii ''OK'',
      json = Inr (envelopeOf (Some (Many [seoul, busan, jeju])) 3)\<rparr>"

definition scenarioFetch :: "jsstring \<Rightarrow> nat \<Rightarrow> AreaCode attempt" where
  "scenarioFetch url k =
     (if str_includes url (ascii ''areaCode=6&'') \<or> str_includes url (ascii ''contentTypeId=25&'')
      then Rejected networkError
      else if str_includes url (ascii ''/areaCode2?'') then Resolved areaCodeResponse
      else if str_includes url (ascii ''contentTypeId=39&'') then Resolved (countResponse 500)
      else Resolved (countResponse 100))"

section \<open>Properties of the transport\<close>

lemma ascii_TourAPIError_neq: "ascii ''TourAPIError'' \<noteq> ascii ''AbortError''"
  by (simp add: ascii_def)

lemma tryBlock_failsOtherwise:
  assumes "failsOtherwise a"
  shows "\<exists>e. tryBlock a = Inl e \<and> \<not> isAbortError e"
proof (cases a)
  case (Resolved r)
  with assms show ?thesis
    by (simp add: failsOtherwise_def tryBlock_def isAbortError_def ascii_TourAPIError_neq)
next
  case (Rejected e)
  with assms show ?thesis by (simp add: failsOtherwise_def tryBlock_def)
qed

lemma fetchWithRetry_step:
  assumes "failsOtherwise (fetch url j)" and "j < MAX_RETRIES"
  shows "fetchWithRetry fetch url j =
           (fst (fetchWithRetry fetch url (Suc j)),
            Fetch url # Sleep (retryDelay j) # snd (fetchWithRetry fetch url (Suc j)))"
proof -
  from tryBlock_failsOtherwise [of "fetch url j"] assms(1) obtain e
    where e: "tryBlock (fetch url j) = Inl e" "\<not> isAbortError e" by blast
  show ?thesis
    using e assms(2)
    by (subst fetchWithRetry.simps) (simp add: isAbortError_def split: prod.split)
qed

lemma fetchWithRetry_success:
  assumes "fetch url j = Resolved r" and "ok r"
  shows "fetchWithRetry fetch url j = (Inr r, [Fetch url])"
  using assms by (subst fetchWithRetry.simps) (simp add: tryBlock_def)

lemma fetchWithRetry_first_ok:
  assumes "fetch url 0 = Resolved r" and "ok r"
  shows "fetchWithRetry fetch url 0 = (Inr r, [Fetch url])"
  using assms by (subst fetchWithRetry.simps) (simp add: tryBlock_def)

lemma fetchWithRetry_timeout:
  assumes "fetch url j = Rejected e" and "isAbortError e"
  shows "fetchWithRetry fetch url j =
           (Inl (TourAPIError msg_timeout (Some 408) (Some e) TIMEOUT_ERROR), [Fetch url])"
  using assms by (subst fetchWithRetry.simps) (simp add: tryBlock_def isAbortError_def)

lemma fetchWithRetry_exhausted:
  assumes "tryBlock (fetch url j) = Inl e" and "\<not> isAbortError e" and "MAX_RETRIES \<le> j"
  shows "fetchWithRetry fetch url j = (Inl (maxRetryError j e), [Fetch url])"
  using assms by (subst fetchWithRetry.simps) (auto simp: isAbortError_def)

lemma fetchWithRetry_prefix:
  assumes "k \<le> MAX_RETRIES" and "\<forall>i. j \<le> i \<and> i < k \<longrightarrow> failsOtherwise (fetch url i)" and "j \<le> k"
  shows "fetchWithRetry fetch url j =
           (fst (fetchWithRetry fetch url k),
            concat (map (\<lambda>i. [Fetch url, Sleep (retryDelay i)]) [j..<k]) @ snd (fetchWithRetry fetch url k))"
  using assms
proof (induction "k - j" arbitrary: j)
  case 0
  then show ?case by simp
next
  case (Suc d)
  then have lt: "j < k" and f: "failsOtherwise (fetch url j)" by auto
  have ih: "fetchWithRetry fetch url (Suc j) =
           (fst (fetchWithRetry fetch url k),
            concat (map (\<lambda>i. [Fetch url, Sleep (retryDelay i)]) [Suc j..<k]) @ snd (fetchWithRetry fetch url k))"
    using Suc by (intro Suc.hyps(1)) auto
  have "j < MAX_RETRIES" using lt Suc.prems(1) by simp
  from fetchWithRetry_step [of fetch url j, OF f this] ih lt show ?case
    by (simp add: upt_conv_Cons)
qed

lemma retryDelay_schedule: "map retryDelay [0..<k] = take k [1000, 2000, 4000]" if "k \<le> 3"
proof -
  from that have "k = 0 \<or> k = 1 \<or> k = 2 \<or> k = 3" by auto
  then show ?thesis
    by (auto simp: retryDelay_def RETRY_DELAYS_def upt_conv_Cons numeral_2_eq_2 numeral_3_eq_3)
qed

lemma backoffTrace_eq:
  assumes "k \<le> 3"
  shows "concat (map (\<lambda>i. [Fetch url, Sleep (retryDelay i)]) [0..<k]) @ [Fetch url] = backoffTrace url k"
proof -
  have "map (\<lambda>i. [Fetch url, Sleep (retryDelay i)]) [0..<k] = map (\<lambda>d. [Fetch url, Sleep d]) (map retryDelay [0..<k])"
    by simp
  then show ?thesis unfolding backoffTrace_def retryDelay_schedule [OF assms, symmetric] by (simp add: comp_def)
qed

lemma fetchWithRetry_exhausts:
  assumes "\<forall>i<3. failsOtherwise (fetch url i)"
    and "tryBlock (fetch url 3) = Inl e" and "\<not> isAbortError e"
  shows "fetchWithRetry fetch url 0 = (Inl (maxRetryError 3 e), backoffTrace url 3)"
proof -
  have "fetchWithRetry fetch url 0 =
           (fst (fetchWithRetry fetch url 3),
            concat (map (\<lambda>i. [Fetch url, Sleep (retryDelay i)]) [0..<3]) @ snd (fetchWithRetry fetch url 3))"
    using assms(1) by (intro fetchWithRetry_prefix) (auto simp: MAX_RETRIES_def)
  moreover have "fetchWithRetry fetch url 3 = (Inl (maxRetryError 3 e), [Fetch url])"
    using fetchWithRetry_exhausted [of fetch url 3 e] assms(2,3) by (simp add: MAX_RETRIES_def)
  ultimately show ?thesis
    using backoffTrace_eq [of 3 url] by simp
qed

text \<open>
  C1 (amended). Let the attempts before attempt \<open>k \<le> 3\<close> fail by a network error, another
  rejection that is not a timeout, or a non-2xx status. Then \<open>fetchWithRetry\<close> has made
  \<open>k + 1\<close> attempts, waiting 1 s, 2 s, 4 s between consecutive ones, when attempt \<open>k\<close>
  settles it: with the response of attempt \<open>k\<close> if that is the first to succeed; with a
  \<open>TIMEOUT_ERROR\<close> and no further attempt if attempt \<open>k\<close> times out; and, for \<open>k = 3\<close>,
  with a terminal error after exactly 4 attempts if the fourth attempt fails as well.
\<close>

theorem fetchWithRetry_backoff:
  assumes "k \<le> 3" and "\<forall>i<k. failsOtherwise (fetch url i)"
  shows "(\<forall>r. fetch url k = Resolved r \<and> ok r \<longrightarrow>
            fetchWithRetry fetch url 0 = (Inr r, backoffTrace url k))
       \<and> (\<forall>e. fetch url k = Rejected e \<and> isAbortError e \<longrightarrow>
            fetchWithRetry fetch url 0 =
              (Inl (TourAPIError msg_timeout (Some 408) (Some e) TIMEOUT_ERROR), backoffTrace url k))
       \<and> (k = 3 \<and> failsOtherwise (fetch url 3) \<longrightarrow>
            (\<exists>e. tryBlock (fetch url 3) = Inl e \<and>
               fetchWithRetry fetch url 0 = (Inl (maxRetryError 3 e), backoffTrace url 3)))"
proof -
  have pre: "fetchWithRetry fetch url 0 =
           (fst (fetchWithRetry fetch url k),
            concat (map (\<lambda>i. [Fetch url, Sleep (retryDelay i)]) [0..<k]) @ snd (fetchWithRetry fetch url k))"
    using assms by (intro fetchWithRetry_prefix) (auto simp: MAX_RETRIES_def)
  show ?thesis
  proof (intro conjI allI impI)
    fix r assume "fetch url k = Resolved r \<and> ok r"
    then show "fetchWithRetry fetch url 0 = (Inr r, backoffTrace url k)"
      using pre fetchWithRetry_success [of fetch url k r] backoffTrace_eq [OF assms(1)] by simp
  next
    fix e assume "fetch url k = Rejected e \<and> isAbortError e"
    then show "fetchWithRetry fetch url 0 =
              (Inl (TourAPIError msg_timeout (Some 408) (Some e) TIMEOUT_ERROR), backoffTrace url k)"
      using pre fetchWithRetry_timeout [of fetch url k e] backoffTrace_eq [OF assms(1)] by simp
  next
    assume a: "k = 3 \<and> failsOtherwise (fetch url 3)"
    then obtain e where e: "tryBlock (fetch url 3) = Inl e" "\<not> isAbortError e"
      using tryBlock_failsOtherwise by blast
    have "fetchWithRetry fetch url 3 = (Inl (maxRetryError 3 e), [Fetch url])"
      using fetchWithRetry_exhausted [of fetch url 3 e] e by (simp add: MAX_RETRIES_def)
    with pre a backoffTrace_eq [OF assms(1)] e(1)
    show "\<exists>e. tryBlock (fetch url 3) = Inl e \<and>
               fetchWithRetry fetch url 0 = (Inl (maxRetryError 3 e), backoffTrace url 3)"
      by simp
  qed
qed

text \<open>
  The theorem at three upstreams: one that fails twice with status 500 and then succeeds
  (3 attempts, waits of 1 s and 2 s), one that times out at once, and one that is
  unreachable (4 attempts, waits of 1 s, 2 s and 4 s).
\<close>

theorem fetchWithRetry_backoff_witness:
  "fetchWithRetry flakyFetch exampleUrl 0 =
     (Inr okEmpty, [Fetch exampleUrl, Sleep 1000, Fetch exampleUrl, Sleep 2000, Fetch exampleUrl])
   \<and> fetchWithRetry timeoutFetch exampleUrl 0 =
     (Inl (TourAPIError msg_timeout (Some 408) (Some abortError) TIMEOUT_ERROR), [Fetch exampleUrl])
   \<and> snd (fetchWithRetry offlineFetch exampleUrl 0) =
     [Fetch exampleUrl, Sleep 1000, Fetch exampleUrl, Sleep 2000, Fetch exampleUrl, Sleep 4000,
      Fetch exampleUrl]"
proof -
  have a: "\<forall>i<2. failsOtherwise (flakyFetch exampleUrl i)"
    by (simp add: flakyFetch_def failsOtherwise_def serverError_def ok_def)
  have b: "\<forall>i<0. failsOtherwise (timeoutFetch exampleUrl i)" by simp
  have c: "\<forall>i<3. failsOtherwise (offlineFetch exampleUrl i)"
    by (simp add: offlineFetch_def failsOtherwise_def networkError_def isAbortError_def ascii_def)
  have c3: "failsOtherwise (offlineFetch exampleUrl 3)"
    by (simp add: offlineFetch_def failsOtherwise_def networkError_def isAbortError_def ascii_def)
  have ab: "isAbortError abortError" by (simp add: abortError_def isAbortError_def)
  show ?thesis
    using fetchWithRetry_backoff [of 2 flakyFetch exampleUrl] a
          fetchWithRetry_backoff [of 0 timeoutFetch exampleUrl] b ab
          fetchWithRetry_backoff [of 3 offlineFetch exampleUrl] c c3
    by (auto simp: flakyFetch_def timeoutFetch_def okEmpty_def ok_def backoffTrace_def)
qed

text \<open>
  C1 as stated fails for a timeout: the first attempt that times out ends the request
  after one attempt, with no wait and no retry.
\<close>

theorem fetchWithRetry_timeout_not_retried:
  "fetchWithRetry timeoutFetch exampleUrl 0 =
     (Inl (TourAPIError msg_timeout (Some 408) (Some abortError) TIMEOUT_ERROR), [Fetch exampleUrl])"
  by (simp add: fetchWithRetry_timeout [of timeoutFetch exampleUrl 0 abortError] timeoutFetch_def
        abortError_def isAbortError_def)

lemma digits_500: "digits 500 = ascii ''500''"
  by (simp add: digits.simps ascii_def)

lemma digits_4: "digits 4 = ascii ''4''"
  by (simp add: digits.simps ascii_def)

lemma serverErrorFetch_result:
  "fetchWithRetry serverErrorFetch exampleUrl 0 =
     (Inl (TourAPIError
             (msg_failed_open @ ascii ''4'' @ msg_failed_close @ ascii ''HTTP 500: Internal Server Error'')
             None
             (Some (TourAPIError (ascii ''HTTP 500: Internal Server Error'') (Some 500) None HTTP_ERROR))
             UNKNOWN_ERROR),
      [Fetch exampleUrl, Sleep 1000, Fetch exampleUrl, Sleep 2000, Fetch exampleUrl, Sleep 4000,
       Fetch exampleUrl])"
proof -
  have t: "tryBlock (Resolved serverError) =
       Inl (TourAPIError (ascii ''HTTP 500: Internal Server Error'') (Some 500) None HTTP_ERROR)"
    by (simp add: tryBlock_def serverError_def ok_def httpErrorType_def String_number_def
          digits_500) (simp add: ascii_def)
  have n: "\<not> isNetworkError (TourAPIError (ascii ''HTTP 500: Internal Server Error'') (Some 500) None HTTP_ERROR)"
    by (simp add: isNetworkError_def ascii_def)
  have m: "maxRetryError 3 (TourAPIError (ascii ''HTTP 500: Internal Server Error'') (Some 500) None HTTP_ERROR)
     = TourAPIError
             (msg_failed_open @ ascii ''4'' @ msg_failed_close @ ascii ''HTTP 500: Internal Server Error'')
             None
             (Some (TourAPIError (ascii ''HTTP 500: Internal Server Error'') (Some 500) None HTTP_ERROR))
             UNKNOWN_ERROR"
    using n by (simp add: maxRetryError_def String_number_def digits_4)
  have f: "\<forall>i<3. failsOtherwise (serverErrorFetch exampleUrl i)"
    by (simp add: serverErrorFetch_def failsOtherwise_def serverError_def ok_def)
  have "fetchWithRetry serverErrorFetch exampleUrl 0 =
     (Inl (maxRetryError 3 (TourAPIError (ascii ''HTTP 500: Internal Server Error'') (Some 500) None HTTP_ERROR)),
      backoffTrace exampleUrl 3)"
    using f t by (intro fetchWithRetry_exhausts)
      (simp_all add: serverErrorFetch_def isAbortError_def ascii_TourAPIError_neq)
  then show ?thesis by (simp add: m backoffTrace_def)
qed

text \<open>
  C2. The claim: when every attempt gets a non-2xx response, the error surfaced after the
  retries is an \<open>HTTP_ERROR\<close> carrying the final status code. The code, at an upstream that
  answers every attempt with status 500: the \<open>HTTP_ERROR\<close> with status 500 that the
  \<open>try\<close> block throws is caught by the function's own \<open>catch\<close>, and what is surfaced
  after the fourth attempt is an \<open>UNKNOWN_ERROR\<close> without a status code, the \<open>HTTP_ERROR\<close>
  being kept only as its \<open>originalError\<close>. At an upstream that is unreachable on every
  attempt (\<open>fetch\<close> rejects with a \<open>TypeError\<close>), the error surfaced is a \<open>NETWORK_ERROR\<close>,
  as the claim says.
\<close>

theorem fetchWithRetry_http_error_rewrapped:
  "fetchWithRetry serverErrorFetch exampleUrl 0 =
     (Inl (TourAPIError
             (msg_failed_open @ ascii ''4'' @ msg_failed_close @ ascii ''HTTP 500: Internal Server Error'')
             None
             (Some (TourAPIError (ascii ''HTTP 500: Internal Server Error'') (Some 500) None HTTP_ERROR))
             UNKNOWN_ERROR),
      [Fetch exampleUrl, Sleep 1000, Fetch exampleUrl, Sleep 2000, Fetch exampleUrl, Sleep 4000,
       Fetch exampleUrl])
 \<and> fst (fetchWithRetry offlineFetch exampleUrl 0) =
     Inl (TourAPIError
            (msg_failed_open @ ascii ''4'' @ msg_failed_close @ ascii ''fetch failed'')
            None (Some networkError) NETWORK_ERROR)"
proof -
  have "fetchWithRetry offlineFetch exampleUrl 0 =
          (Inl (maxRetryError 3 networkError), backoffTrace exampleUrl 3)"
    by (intro fetchWithRetry_exhausts)
       (simp_all add: offlineFetch_def failsOtherwise_def tryBlock_def isAbortError_def
          networkError_def ascii_def)
  moreover have "maxRetryError 3 networkError =
      TourAPIError (msg_failed_open @ ascii ''4'' @ msg_failed_close @ ascii ''fetch failed'')
            None (Some networkError) NETWORK_ERROR"
    by (simp add: maxRetryError_def networkError_def isNetworkError_def String_number_def digits_4)
  ultimately show ?thesis
    using serverErrorFetch_result by simp
qed

section \<open>Properties of the envelope parser\<close>

lemma startsWith_append: "startsWith (s @ b) s"
  by (induction s) simp_all

lemma str_includes_startsWith: "startsWith t s \<Longrightarrow> str_includes t s"
  by (cases t; cases s) simp_all

lemma str_includes_append_left: "str_includes t s \<Longrightarrow> str_includes (a @ t) s"
  by (induction a) simp_all

lemma str_includes_infix: "str_includes (a @ s @ b) s"
  by (intro str_includes_append_left str_includes_startsWith startsWith_append)

text \<open>
  C3. For every envelope whose \<open>resultCode\<close> is not \<open>0000\<close>, \<open>parseAPIResponse\<close> throws
  and returns no value; what it throws is a \<open>TourAPIError\<close> of kind \<open>API_KEY_INVALID\<close>
  exactly when \<open>resultCode\<close> is one of SERVICE_KEY_IS_NOT_REGISTERED,
  SERVICE_KEY_IS_NOT_VALID, SERVICE_KEY_IS_NULL, and of kind \<open>API_ERROR\<close> otherwise; its
  message contains the envelope's \<open>resultCode\<close> and \<open>resultMsg\<close>.
\<close>

theorem parseAPIResponse_error_code:
  assumes "resultCode (header (response r)) \<noteq> ascii ''0000''"
  shows "\<exists>m. parseAPIResponse r =
           Inl (TourAPIError m None None
                  (if resultCode (header (response r)) \<in> keyErrorCodes
                   then API_KEY_INVALID else API_ERROR))
         \<and> str_includes m (resultCode (header (response r)))
         \<and> str_includes m (resultMsg (header (response r)))"
proof -
  let ?rc = "resultCode (header (response r))"
  let ?rm = "resultMsg (header (response r))"
  define rm where "rm = (if ?rm = [] then msg_unknown else ?rm)"
  define m where "m = msg_api_error @ rm @ msg_code @ ?rc @ ascii '')''"
  have p: "parseAPIResponse r =
      Inl (TourAPIError m None None (if ?rc \<in> keyErrorCodes then API_KEY_INVALID else API_ERROR))"
    using assms by (simp add: parseAPIResponse_def Let_def m_def rm_def isApiKeyError_def keyErrorCodes_def)
  have "m = (msg_api_error @ rm @ msg_code) @ ?rc @ ascii '')''" by (simp add: m_def)
  then have c: "str_includes m ?rc" by (simp only: str_includes_infix)
  have "str_includes m ?rm"
  proof (cases "?rm = []")
    case True
    then show ?thesis by (cases m) simp_all
  next
    case False
    then have "m = msg_api_error @ ?rm @ (msg_code @ ?rc @ ascii '')'')" by (simp add: m_def rm_def)
    then show ?thesis by (simp only: str_includes_infix)
  qed
  with p c show ?thesis by blast
qed

text \<open>
  The theorem at the two error envelopes.
\<close>

theorem parseAPIResponse_error_code_witness:
  "(\<exists>m. parseAPIResponse keyRejected = Inl (TourAPIError m None None API_KEY_INVALID)
        \<and> str_includes m (ascii ''SERVICE_KEY_IS_NOT_REGISTERED'')
        \<and> str_includes m (ascii ''SERVICE KEY IS NOT REGISTERED ERROR.''))
   \<and> (\<exists>m. parseAPIResponse limitExceeded = Inl (TourAPIError m None None API_ERROR)
        \<and> str_includes m (ascii ''22'')
        \<and> str_includes m (ascii ''LIMITED_NUMBER_OF_SERVICE_REQUESTS_EXCEEDS_ERROR''))"
proof -
  have a: "resultCode (header (response keyRejected)) \<noteq> ascii ''0000''"
    by (simp add: keyRejected_def ascii_def)
  have b: "resultCode (header (response limitExceeded)) \<noteq> ascii ''0000''"
    by (simp add: limitExceeded_def ascii_def)
  have c: "resultCode (header (response limitExceeded)) \<notin> keyErrorCodes"
    by (simp add: limitExceeded_def keyErrorCodes_def ascii_def)
  have d: "resultCode (header (response keyRejected)) \<in> keyErrorCodes"
    by (simp add: keyRejected_def keyErrorCodes_def)
  have e: "resultCode (header (response keyRejected)) = ascii ''SERVICE_KEY_IS_NOT_REGISTERED''"
    "resultMsg (header (response keyRejected)) = ascii ''SERVICE KEY IS NOT REGISTERED ERROR.''"
    "resultCode (header (response limitExceeded)) = ascii ''22''"
    "resultMsg (header (response limitExceeded)) = ascii ''LIMITED_NUMBER_OF_SERVICE_REQUESTS_EXCEEDS_ERROR''"
    by (simp_all add: keyRejected_def limitExceeded_def)
  show ?thesis
    using parseAPIResponse_error_code [OF a] parseAPIResponse_error_code [OF b] c d
    unfolding e by simp
qed

text \<open>
  C4. For every envelope whose \<open>resultCode\<close> is \<open>0000\<close>, \<open>parseAPIResponse\<close> returns: the
  empty array when \<open>body\<close> or \<open>body.items\<close> is absent, the one-element array of the object
  when \<open>item\<close> is a single object, and the array itself when \<open>item\<close> is an array.
\<close>

theorem parseAPIResponse_success:
  assumes "resultCode (header (response r)) = ascii ''0000''"
  shows "(body (response r) = None \<longrightarrow> parseAPIResponse r = Inr [])
       \<and> (\<forall>b. body (response r) = Some b \<and> items b = None \<longrightarrow> parseAPIResponse r = Inr [])
       \<and> (\<forall>b its x. body (response r) = Some b \<and> items b = Some its \<and> item its = Single x
             \<longrightarrow> parseAPIResponse r = Inr [x])
       \<and> (\<forall>b its xs. body (response r) = Some b \<and> items b = Some its \<and> item its = Many xs
             \<longrightarrow> parseAPIResponse r = Inr xs)"
  using assms by (simp add: parseAPIResponse_def)

text \<open>
  The theorem at envelopes of the four shapes.
\<close>

theorem parseAPIResponse_success_witness:
  "parseAPIResponse emptyEnvelope = Inr []
 \<and> parseAPIResponse (envelopeOf (Some (Single seoul)) 1) = Inr [seoul]
 \<and> parseAPIResponse (envelopeOf (Some (Many [seoul, busan])) 2) = Inr [seoul, busan]
 \<and> parseAPIResponse (envelopeOf (Some (Many [])) 0) = (Inr [] :: thrown + AreaCode list)"
  using parseAPIResponse_success [of emptyEnvelope]
        parseAPIResponse_success [of "envelopeOf (Some (Single seoul)) 1"]
        parseAPIResponse_success [of "envelopeOf (Some (Many [seoul, busan])) 2"]
        parseAPIResponse_success [of "envelopeOf (Some (Many ([] :: AreaCode list))) 0"]
  by (simp add: emptyEnvelope_def envelopeOf_def)

section \<open>Properties of the client operations\<close>

lemma trim_empty_iff: "trim s = [] \<longleftrightarrow> (\<forall>c\<in>set s. isWhiteSpace c)"
proof
  assume "\<forall>c\<in>set s. isWhiteSpace c"
  then have d: "dropWhile isWhiteSpace s = []" by (induction s) simp_all
  show "trim s = []" unfolding trim_def d by simp
next
  assume "trim s = []"
  then have a: "\<forall>c\<in>set (dropWhile isWhiteSpace s). isWhiteSpace c"
    by (simp add: trim_def dropWhile_eq_Nil_conv)
  have "dropWhile isWhiteSpace s = []"
  proof (rule ccontr)
    assume n: "dropWhile isWhiteSpace s \<noteq> []"
    then have "\<not> isWhiteSpace (hd (dropWhile isWhiteSpace s))" by (rule hd_dropWhile)
    moreover have "hd (dropWhile isWhiteSpace s) \<in> set (dropWhile isWhiteSpace s)"
      using n by simp
    ultimately show False using a by blast
  qed
  then show "\<forall>c\<in>set s. isWhiteSpace c" by (simp only: dropWhile_eq_Nil_conv)
qed

lemma isBlank_iff: "isBlank v \<longleftrightarrow> blankArgument v"
  by (cases v) (auto simp: trim_empty_iff list_all_iff)

text \<open>
  C5. For every keyword that is missing, empty, or white space only, \<open>searchKeyword\<close> fails
  with a \<open>VALIDATION_ERROR\<close>, and its trace is empty: \<open>fetch\<close> has not been called.
\<close>

theorem searchKeyword_blank_keyword:
  assumes "blankArgument (sk_keyword params)"
  shows "searchKeyword env fetch params =
           (Inl (TourAPIError msg_keyword_required None None VALIDATION_ERROR), [])"
  using assms by (simp add: searchKeyword_def isBlank_iff)

text \<open>
  The theorem at the keywords of three spaces, the empty string, and no keyword.
\<close>

theorem searchKeyword_blank_keyword_witness:
  "searchKeyword exampleEnv okFetch
      \<lparr>sk_keyword = Some (ascii ''   ''), sk_areaCode = None, sk_contentTypeId = None,
       sk_numOfRows = None, sk_pageNo = None\<rparr>
     = (Inl (TourAPIError msg_keyword_required None None VALIDATION_ERROR), [])
   \<and> searchKeyword exampleEnv okFetch
      \<lparr>sk_keyword = Some [], sk_areaCode = None, sk_contentTypeId = None,
       sk_numOfRows = None, sk_pageNo = None\<rparr>
     = (Inl (TourAPIError msg_keyword_required None None VALIDATION_ERROR), [])
   \<and> searchKeyword exampleEnv okFetch
      \<lparr>sk_keyword = None, sk_areaCode = None, sk_contentTypeId = None,
       sk_numOfRows = None, sk_pageNo = None\<rparr>
     = (Inl (TourAPIError msg_keyword_required None None VALIDATION_ERROR), [])"
proof -
  have "blankArgument (Some (ascii ''   ''))" by (simp add: ascii_def isWhiteSpace_def)
  then show ?thesis
    using searchKeyword_blank_keyword [of "\<lparr>sk_keyword = Some (ascii ''   ''), sk_areaCode = None, sk_contentTypeId = None,
       sk_numOfRows = None, sk_pageNo = None\<rparr>" exampleEnv okFetch]
      searchKeyword_blank_keyword [of "\<lparr>sk_keyword = Some [], sk_areaCode = None, sk_contentTypeId = None,
       sk_numOfRows = None, sk_pageNo = None\<rparr>" exampleEnv okFetch]
      searchKeyword_blank_keyword [of "\<lparr>sk_keyword = None, sk_areaCode = None, sk_contentTypeId = None,
       sk_numOfRows = None, sk_pageNo = None\<rparr>" exampleEnv okFetch]
    by simp
qed

lemma exampleEnv_key: "getServiceKey exampleEnv = Inr (ascii ''key+1/a='')"
  by (simp add: getServiceKey_def exampleEnv_def ascii_def)

lemma exampleEnv_common:
  "getCommonParams exampleEnv =
     Inr [(ascii ''serviceKey'', QString (ascii ''key+1/a='')),
          (ascii ''MobileOS'', QString DEFAULT_MOBILE_OS),
          (ascii ''MobileApp'', QString DEFAULT_MOBILE_APP),
          (ascii ''_type'', QString DEFAULT_TYPE)]"
  by (simp add: getCommonParams_def exampleEnv_key)

lemmas url_defs = BASE_URL_def DEFAULT_MOBILE_OS_def DEFAULT_MOBILE_APP_def DEFAULT_TYPE_def
  DEFAULT_NUM_OF_ROWS_def DEFAULT_PAGE_NO_def buildQueryString_def urlencode_def ascii_def
  utf8_def urlencodeByte_def hexDigit_def String_number_def digits.simps














lemma trim_digits: "trim (ascii ''126508'') = ascii ''126508''" "trim (ascii ''999'') = ascii ''999''"
  "trim (ascii ''12'') = ascii ''12''"
  by (simp_all add: trim_def ascii_def isWhiteSpace_def)


lemma firstOrThrow_empty:
  "firstOrThrow nf wrap [] = Inl (TourAPIError nf None None UNKNOWN_ERROR)"
  by (simp add: firstOrThrow_def catchClause_def)

lemma fetchJson_finds_nothing:
  assumes "findsNothing fetch url"
  shows "\<exists>data evs. fetchJson fetch url = (Inr (data, []), evs)"
proof -
  obtain res evs where r: "fetchWithRetry fetch url 0 = (res, evs)"
    by (cases "fetchWithRetry fetch url 0")
  from assms r obtain resp where res: "res = Inr resp"
    and c: "case json resp of Inl e \<Rightarrow> False | Inr data \<Rightarrow> parseAPIResponse data = Inr []"
    by (cases res) (simp_all add: findsNothing_def)
  from c obtain data where "json resp = Inr data" "parseAPIResponse data = Inr []"
    by (cases "json resp") simp_all
  with r res show ?thesis by (simp add: fetchJson_def)
qed

lemma getDetailCommon_finds_nothing:
  assumes "getCommonParams env = Inr common" and "dp_contentId p = Some s"
    and "\<not> blankArgument (Some s)"
    and "findsNothing fetch
           (requestUrl (ascii ''/detailCommon2?'') (common @ [(ascii ''contentId'', QString (trim s))]))"
  shows "fst (getDetailCommon env fetch p) =
           Inl (TourAPIError msg_detail_not_found None None UNKNOWN_ERROR)"
proof -
  from fetchJson_finds_nothing [OF assms(4)] obtain data evs where
    "fetchJson fetch (BASE_URL @ ascii ''/detailCommon2?'' @
        buildQueryString (common @ [(ascii ''contentId'', QString (trim s))])) = (Inr (data, []), evs)"
    unfolding requestUrl_def by blast
  then show ?thesis
    using assms(1,2,3)
    by (simp add: getDetailCommon_def isBlank_iff firstOrThrow_empty)
qed

lemma getDetailPetTour_finds_nothing:
  assumes "getCommonParams env = Inr common" and "dp_contentId p = Some s"
    and "\<not> blankArgument (Some s)"
    and "findsNothing fetch
           (requestUrl (ascii ''/detailPetTour2?'') (common @ [(ascii ''contentId'', QString (trim s))]))"
  shows "fst (getDetailPetTour env fetch p) =
           Inl (TourAPIError msg_pet_not_found None None UNKNOWN_ERROR)"
proof -
  from fetchJson_finds_nothing [OF assms(4)] obtain data evs where
    "fetchJson fetch (BASE_URL @ ascii ''/detailPetTour2?'' @
        buildQueryString (common @ [(ascii ''contentId'', QString (trim s))])) = (Inr (data, []), evs)"
    unfolding requestUrl_def by blast
  then show ?thesis
    using assms(1,2,3)
    by (simp add: getDetailPetTour_def isBlank_iff firstOrThrow_empty)
qed

lemma getDetailIntro_finds_nothing:
  assumes "getCommonParams env = Inr common"
    and "dp_contentId q = Some s" and "\<not> blankArgument (Some s)"
    and "dp_contentTypeId q = Some t" and "\<not> blankArgument (Some t)"
    and "findsNothing fetch
           (requestUrl (ascii ''/detailIntro2?'')
              (common @ [(ascii ''contentId'', QString (trim s)),
                         (ascii ''contentTypeId'', QString (trim t))]))"
  shows "fst (getDetailIntro env fetch q) =
           Inl (TourAPIError msg_intro_not_found None None UNKNOWN_ERROR)"
proof -
  from fetchJson_finds_nothing [OF assms(6)] obtain data evs where
    "fetchJson fetch (BASE_URL @ ascii ''/detailIntro2?'' @
        buildQueryString (common @ [(ascii ''contentId'', QString (trim s)),
                         (ascii ''contentTypeId'', QString (trim t))])) = (Inr (data, []), evs)"
    unfolding requestUrl_def by blast
  then show ?thesis
    using assms(1,2,3,4,5)
    by (simp add: getDetailIntro_def isBlank_iff firstOrThrow_empty)
qed

text \<open>
  C6 (amended). \<open>getDetailCommon\<close>, \<open>getDetailIntro\<close> and \<open>getDetailPetTour\<close> fail with a
  \<open>VALIDATION_ERROR\<close>, before any request, when a required identifier (\<open>contentId\<close>, and
  \<open>contentTypeId\<close> for \<open>getDetailIntro\<close>) is missing, empty or white space only. When the
  identifiers are not blank and the upstream returns zero records for the request of the
  lookup (the URL of the endpoint with the common parameters and the trimmed identifiers,
  answered at the first attempt or after retries), they fail with a \<open>TourAPIError\<close> that
  carries the not-found message and the default kind \<open>UNKNOWN_ERROR\<close>.
\<close>

theorem single_entity_lookup_errors:
  "(blankArgument (dp_contentId p) \<longrightarrow>
      getDetailCommon env fetch p =
        (Inl (TourAPIError msg_contentId_required None None VALIDATION_ERROR), [])
    \<and> getDetailPetTour env fetch p =
        (Inl (TourAPIError msg_contentId_required None None VALIDATION_ERROR), []))
 \<and> (blankArgument (dp_contentId q) \<longrightarrow>
      getDetailIntro env fetch q =
        (Inl (TourAPIError msg_contentId_required None None VALIDATION_ERROR), []))
 \<and> (\<not> blankArgument (dp_contentId q) \<and> blankArgument (dp_contentTypeId q) \<longrightarrow>
      getDetailIntro env fetch q =
        (Inl (TourAPIError msg_contentTypeId_required None None VALIDATION_ERROR), []))
 \<and> (getCommonParams env = Inr common \<and> dp_contentId p = Some s \<and> \<not> blankArgument (Some s)
      \<and> findsNothing fetch
           (requestUrl (ascii ''/detailCommon2?'') (common @ [(ascii ''contentId'', QString (trim s))]))
      \<longrightarrow> fst (getDetailCommon env fetch p) =
            Inl (TourAPIError msg_detail_not_found None None UNKNOWN_ERROR))
 \<and> (getCommonParams env = Inr common \<and> dp_contentId p = Some s \<and> \<not> blankArgument (Some s)
      \<and> findsNothing fetch
           (requestUrl (ascii ''/detailPetTour2?'') (common @ [(ascii ''contentId'', QString (trim s))]))
      \<longrightarrow> fst (getDetailPetTour env fetch p) =
            Inl (TourAPIError msg_pet_not_found None None UNKNOWN_ERROR))
 \<and> (getCommonParams env = Inr common
      \<and> dp_contentId q = Some s' \<and> \<not> blankArgument (Some s')
      \<and> dp_contentTypeId q = Some t \<and> \<not> blankArgument (Some t)
      \<and> findsNothing fetch
           (requestUrl (ascii ''/detailIntro2?'')
              (common @ [(ascii ''contentId'', QString (trim s')),
                         (ascii ''contentTypeId'', QString (trim t))]))
      \<longrightarrow> fst (getDetailIntro env fetch q) =
            Inl (TourAPIError msg_intro_not_found None None UNKNOWN_ERROR))"
proof (intro conjI impI)
  assume "blankArgument (dp_contentId p)"
  then show "getDetailCommon env fetch p =
        (Inl (TourAPIError msg_contentId_required None None VALIDATION_ERROR), [])"
    and "getDetailPetTour env fetch p =
        (Inl (TourAPIError msg_contentId_required None None VALIDATION_ERROR), [])"
    by (simp_all add: getDetailCommon_def getDetailPetTour_def isBlank_iff)
next
  assume "blankArgument (dp_contentId q)"
  then show "getDetailIntro env fetch q =
        (Inl (TourAPIError msg_contentId_required None None VALIDATION_ERROR), [])"
    by (simp add: getDetailIntro_def isBlank_iff)
next
  assume "\<not> blankArgument (dp_contentId q) \<and> blankArgument (dp_contentTypeId q)"
  then show "getDetailIntro env fetch q =
        (Inl (TourAPIError msg_contentTypeId_required None None VALIDATION_ERROR), [])"
    by (simp add: getDetailIntro_def isBlank_iff)
next
  assume "getCommonParams env = Inr common \<and> dp_contentId p = Some s \<and> \<not> blankArgument (Some s)
      \<and> findsNothing fetch
           (requestUrl (ascii ''/detailCommon2?'') (common @ [(ascii ''contentId'', QString (trim s))]))"
  then show "fst (getDetailCommon env fetch p) =
            Inl (TourAPIError msg_detail_not_found None None UNKNOWN_ERROR)"
    using getDetailCommon_finds_nothing [of env common p s fetch] by blast
next
  assume "getCommonParams env = Inr common \<and> dp_contentId p = Some s \<and> \<not> blankArgument (Some s)
      \<and> findsNothing fetch
           (requestUrl (ascii ''/detailPetTour2?'') (common @ [(ascii ''contentId'', QString (trim s))]))"
  then show "fst (getDetailPetTour env fetch p) =
            Inl (TourAPIError msg_pet_not_found None None UNKNOWN_ERROR)"
    using getDetailPetTour_finds_nothing [of env common p s fetch] by blast
next
  assume "getCommonParams env = Inr common
      \<and> dp_contentId q = Some s' \<and> \<not> blankArgument (Some s')
      \<and> dp_contentTypeId q = Some t \<and> \<not> blankArgument (Some t)
      \<and> findsNothing fetch
           (requestUrl (ascii ''/detailIntro2?'')
              (common @ [(ascii ''contentId'', QString (trim s')),
                         (ascii ''contentTypeId'', QString (trim t))]))"
  then show "fst (getDetailIntro env fetch q) =
            Inl (TourAPIError msg_intro_not_found None None UNKNOWN_ERROR)"
    using getDetailIntro_finds_nothing [of env common q s' t fetch] by blast
qed

lemma okFetch_finds_nothing: "findsNothing okFetch url"
  by (simp add: findsNothing_def fetchWithRetry.simps okFetch_def tryBlock_def okEmpty_def ok_def
        emptyEnvelope_def parseAPIResponse_def)

lemma flakyFetch_finds_nothing: "findsNothing flakyFetch url"
proof -
  have "fetchWithRetry flakyFetch url 0 =
          (fst (fetchWithRetry flakyFetch url 2),
           concat (map (\<lambda>i. [Fetch url, Sleep (retryDelay i)]) [0..<2]) @
             snd (fetchWithRetry flakyFetch url 2))"
    by (rule fetchWithRetry_prefix)
       (simp_all add: MAX_RETRIES_def flakyFetch_def failsOtherwise_def serverError_def ok_def)
  moreover have "fetchWithRetry flakyFetch url 2 = (Inr okEmpty, [Fetch url])"
    by (rule fetchWithRetry_success) (simp_all add: flakyFetch_def okEmpty_def ok_def)
  ultimately have "fst (fetchWithRetry flakyFetch url 0) = Inr okEmpty" by simp
  then show ?thesis
    by (simp add: findsNothing_def okEmpty_def emptyEnvelope_def parseAPIResponse_def)
qed

lemma catalogFetch_999:
  "findsNothing catalogFetch
     (requestUrl (ascii ''/detailCommon2?'')
        ([(ascii ''serviceKey'', QString (ascii ''key+1/a='')),
          (ascii ''MobileOS'', QString DEFAULT_MOBILE_OS),
          (ascii ''MobileApp'', QString DEFAULT_MOBILE_APP),
          (ascii ''_type'', QString DEFAULT_TYPE)] @ [(ascii ''contentId'', QString (ascii ''999''))]))"
  by (simp add: findsNothing_def requestUrl_def)
     (simp add: url_defs catalogFetch_def fetchWithRetry.simps tryBlock_def okEmpty_def ok_def
        emptyEnvelope_def parseAPIResponse_def)

lemma catalogFetch_126508:
  "fst (getDetailCommon exampleEnv catalogFetch \<lparr>dp_contentId = Some (ascii ''126508'')\<rparr>) = Inr seoul"
  by (simp add: getDetailCommon_def exampleEnv_common fetchJson_def trim_digits)
     (simp add: url_defs catalogFetch_def fetchWithRetry.simps tryBlock_def ok_def envelopeOf_def
        parseAPIResponse_def firstOrThrow_def isWhiteSpace_def)

text \<open>
  The theorem at blank identifiers, at an upstream that holds a record for another id
  than the one looked up (and finds that record when it is asked for), and at an
  upstream that answers with no record after two failed attempts.
\<close>

theorem single_entity_lookup_errors_witness:
  "getDetailCommon exampleEnv okFetch \<lparr>dp_contentId = Some (ascii '' '')\<rparr> =
     (Inl (TourAPIError msg_contentId_required None None VALIDATION_ERROR), [])
 \<and> getDetailPetTour exampleEnv okFetch \<lparr>dp_contentId = None\<rparr> =
     (Inl (TourAPIError msg_contentId_required None None VALIDATION_ERROR), [])
 \<and> getDetailIntro exampleEnv okFetch
       \<lparr>dp_contentId = Some (ascii ''126508''), dp_contentTypeId = Some []\<rparr> =
     (Inl (TourAPIError msg_contentTypeId_required None None VALIDATION_ERROR), [])
 \<and> fst (getDetailCommon exampleEnv catalogFetch \<lparr>dp_contentId = Some (ascii ''999'')\<rparr>) =
     Inl (TourAPIError msg_detail_not_found None None UNKNOWN_ERROR)
 \<and> fst (getDetailCommon exampleEnv catalogFetch \<lparr>dp_contentId = Some (ascii ''126508'')\<rparr>) =
     Inr seoul
 \<and> fst (getDetailPetTour exampleEnv flakyFetch \<lparr>dp_contentId = Some (ascii ''126508'')\<rparr>) =
     Inl (TourAPIError msg_pet_not_found None None UNKNOWN_ERROR)
 \<and> fst (getDetailIntro exampleEnv flakyFetch
       \<lparr>dp_contentId = Some (ascii ''126508''), dp_contentTypeId = Some (ascii ''12'')\<rparr>) =
     Inl (TourAPIError msg_intro_not_found None None UNKNOWN_ERROR)"
proof -
  have b: "blankArgument (Some (ascii '' ''))" "blankArgument None" "blankArgument (Some [])"
    "\<not> blankArgument (Some (ascii ''126508''))" "\<not> blankArgument (Some (ascii ''12''))"
    "\<not> blankArgument (Some (ascii ''999''))"
    by (simp_all add: ascii_def isWhiteSpace_def)
  let ?common = "[(ascii ''serviceKey'', QString (ascii ''key+1/a='')),
          (ascii ''MobileOS'', QString DEFAULT_MOBILE_OS),
          (ascii ''MobileApp'', QString DEFAULT_MOBILE_APP),
          (ascii ''_type'', QString DEFAULT_TYPE)]"
  note c = exampleEnv_common
  have 1: "getDetailCommon exampleEnv okFetch \<lparr>dp_contentId = Some (ascii '' '')\<rparr> =
     (Inl (TourAPIError msg_contentId_required None None VALIDATION_ERROR), [])"
    using single_entity_lookup_errors [of "\<lparr>dp_contentId = Some (ascii '' '')\<rparr>" exampleEnv okFetch] b
    by simp
  have 2: "getDetailPetTour exampleEnv okFetch \<lparr>dp_contentId = None\<rparr> =
     (Inl (TourAPIError msg_contentId_required None None VALIDATION_ERROR), [])"
    using single_entity_lookup_errors [of "\<lparr>dp_contentId = None\<rparr>" exampleEnv okFetch] b
    by simp
  have 3: "getDetailIntro exampleEnv okFetch
       \<lparr>dp_contentId = Some (ascii ''126508''), dp_contentTypeId = Some []\<rparr> =
     (Inl (TourAPIError msg_contentTypeId_required None None VALIDATION_ERROR), [])"
    using single_entity_lookup_errors [of _ exampleEnv okFetch
       "\<lparr>dp_contentId = Some (ascii ''126508''), dp_contentTypeId = Some []\<rparr>"] b
    by simp
  have 4: "fst (getDetailCommon exampleEnv catalogFetch \<lparr>dp_contentId = Some (ascii ''999'')\<rparr>) =
     Inl (TourAPIError msg_detail_not_found None None UNKNOWN_ERROR)"
    using single_entity_lookup_errors [of "\<lparr>dp_contentId = Some (ascii ''999'')\<rparr>" exampleEnv
        catalogFetch _ ?common "ascii ''999''"] b c catalogFetch_999
    by (simp add: trim_digits)
  have 5: "fst (getDetailPetTour exampleEnv flakyFetch \<lparr>dp_contentId = Some (ascii ''126508'')\<rparr>) =
     Inl (TourAPIError msg_pet_not_found None None UNKNOWN_ERROR)"
    using single_entity_lookup_errors [of "\<lparr>dp_contentId = Some (ascii ''126508'')\<rparr>" exampleEnv
        flakyFetch _ ?common "ascii ''126508''"] b c flakyFetch_finds_nothing
    by simp
  have 6: "fst (getDetailIntro exampleEnv flakyFetch
       \<lparr>dp_contentId = Some (ascii ''126508''), dp_contentTypeId = Some (ascii ''12'')\<rparr>) =
     Inl (TourAPIError msg_intro_not_found None None UNKNOWN_ERROR)"
    using single_entity_lookup_errors [of _ exampleEnv flakyFetch
        "\<lparr>dp_contentId = Some (ascii ''126508''), dp_contentTypeId = Some (ascii ''12'')\<rparr>"
        ?common _ "ascii ''126508''" "ascii ''12''"] b c flakyFetch_finds_nothing
    by simp
  from 1 2 3 4 5 6 catalogFetch_126508 show ?thesis by simp
qed

text \<open>
  C6 as stated fails: the error of a lookup that finds no record is not of kind
  \<open>API_ERROR\<close>; the \<open>throw\<close> gives the constructor a message only.
\<close>

theorem getDetailCommon_not_found_kind:
  "fst (getDetailCommon exampleEnv okFetch \<lparr>dp_contentId = Some (ascii ''126508'')\<rparr>) =
     Inl (TourAPIError msg_detail_not_found None None UNKNOWN_ERROR)"
  by (rule getDetailCommon_finds_nothing [OF exampleEnv_common _ _ okFetch_finds_nothing,
            of _ "ascii ''126508''"])
     (simp_all add: ascii_def isWhiteSpace_def)

section \<open>Properties of the regional statistics\<close>

lemma catchClause_TourAPIError [simp]: "instanceofTourAPIError (catchClause msg e)"
  by (simp add: catchClause_def)

lemma catchClause_idem: "instanceofTourAPIError e \<Longrightarrow> catchClause msg e = e"
  by (simp add: catchClause_def)

lemma getCommonParams_error:
  "getCommonParams env = Inl e \<Longrightarrow> instanceofTourAPIError e"
  by (auto simp: getCommonParams_def getServiceKey_def Let_def split: sum.splits option.splits if_splits)

lemma getAreaCode_error:
  assumes "fst (getAreaCode env fetch params) = Inl e"
  shows "instanceofTourAPIError e"
proof (cases "getCommonParams env")
  case (Inl e')
  with assms show ?thesis by (auto simp: getAreaCode_def dest: getCommonParams_error)
next
  case (Inr common)
  with assms show ?thesis
    by (auto simp: getAreaCode_def Let_def split: prod.splits sum.splits)
qed

lemma fulfilledValues_regionStat:
  "fulfilledValues (map (\<lambda>a. fst (regionStat env fetch a)) areaCodes) =
     map (\<lambda>a. \<lparr>r_areaCode = code a, r_name = name a,
                r_count = tl_totalCount (projr (regionCall env fetch a))\<rparr>)
         (filter (\<lambda>a. \<not> isl (regionCall env fetch a)) areaCodes)"
  by (induction areaCodes) (auto simp: regionStat_def regionCall_def split: sum.splits)

lemma logs_regionStat:
  "concat (map (\<lambda>a. snd (regionStat env fetch a)) areaCodes) =
     map (regionFailureLog env fetch) (filter (\<lambda>a. isl (regionCall env fetch a)) areaCodes)"
  by (induction areaCodes)
     (auto simp: regionStat_def regionCall_def regionFailureLog_def split: sum.splits)

lemma getRegionStats_success:
  assumes "fst (getAreaCode env fetchArea \<lparr>ac_numOfRows = Some 100, ac_pageNo = Some 1\<rparr>) = Inr areaCodes"
  shows "fst (getRegionStats env fetchArea fetchList) =
          Inr (map (\<lambda>a. \<lparr>r_areaCode = code a, r_name = name a,
                          r_count = tl_totalCount (projr (regionCall env fetchList a))\<rparr>)
                   (filter (\<lambda>a. \<not> isl (regionCall env fetchList a)) areaCodes))"
  using assms by (simp add: getRegionStats_def Let_def comp_def fulfilledValues_regionStat)

text \<open>
  C7. When the initial area-code lookup fails, \<open>getRegionStats\<close> fails with that error.
  When it succeeds, \<open>getRegionStats\<close> succeeds whatever the per-region calls do: it returns
  the statistics of the regions whose listing call succeeded, in the order of the area
  codes, omits the regions whose call failed, and logs one \<open>console.error\<close> line for each
  of those.
\<close>

theorem getRegionStats_partial_failure:
  "(\<forall>e. fst (getAreaCode env fetchArea \<lparr>ac_numOfRows = Some 100, ac_pageNo = Some 1\<rparr>) = Inl e \<longrightarrow>
        getRegionStats env fetchArea fetchList = (Inl e, []))
 \<and> (\<forall>areaCodes.
        fst (getAreaCode env fetchArea \<lparr>ac_numOfRows = Some 100, ac_pageNo = Some 1\<rparr>) = Inr areaCodes \<longrightarrow>
        fst (getRegionStats env fetchArea fetchList) =
          Inr (map (\<lambda>a. \<lparr>r_areaCode = code a, r_name = name a,
                          r_count = tl_totalCount (projr (regionCall env fetchList a))\<rparr>)
                   (filter (\<lambda>a. \<not> isl (regionCall env fetchList a)) areaCodes))
        \<and> (areaCodes \<noteq> [] \<longrightarrow>
             snd (getRegionStats env fetchArea fetchList) =
               map (regionFailureLog env fetchList)
                   (filter (\<lambda>a. isl (regionCall env fetchList a)) areaCodes)))"
proof (intro conjI allI impI)
  fix e
  assume a: "fst (getAreaCode env fetchArea \<lparr>ac_numOfRows = Some 100, ac_pageNo = Some 1\<rparr>) = Inl e"
  then have "catchClause msg_regionStats e = e"
    by (intro catchClause_idem) (rule getAreaCode_error)
  with a show "getRegionStats env fetchArea fetchList = (Inl e, [])"
    by (simp add: getRegionStats_def)
next
  fix areaCodes
  assume a: "fst (getAreaCode env fetchArea \<lparr>ac_numOfRows = Some 100, ac_pageNo = Some 1\<rparr>) = Inr areaCodes"
  show "fst (getRegionStats env fetchArea fetchList) =
          Inr (map (\<lambda>a. \<lparr>r_areaCode = code a, r_name = name a,
                          r_count = tl_totalCount (projr (regionCall env fetchList a))\<rparr>)
                   (filter (\<lambda>a. \<not> isl (regionCall env fetchList a)) areaCodes))"
    using a by (simp add: getRegionStats_def Let_def comp_def fulfilledValues_regionStat)
  assume "areaCodes \<noteq> []"
  then show "snd (getRegionStats env fetchArea fetchList) =
               map (regionFailureLog env fetchList)
                   (filter (\<lambda>a. isl (regionCall env fetchList a)) areaCodes)"
    using a by (simp add: getRegionStats_def Let_def comp_def logs_regionStat)
qed

lemma scenario_areaCodes:
  "fst (getAreaCode exampleEnv scenarioFetch \<lparr>ac_numOfRows = Some 100, ac_pageNo = Some 1\<rparr>) =
     Inr [seoul, busan, jeju]"
  by (simp add: getAreaCode_def exampleEnv_common fetchJson_def) 
     (simp add: url_defs scenarioFetch_def fetchWithRetry.simps tryBlock_def areaCodeResponse_def ok_def
        envelopeOf_def parseAPIResponse_def)

lemma scenario_seoul:
  "regionCall exampleEnv scenarioFetch seoul =
     Inr \<lparr>tl_items = [], tl_totalCount = 100, tl_numOfRows = 1, tl_pageNo = 1\<rparr>"
  by (simp add: regionCall_def getAreaBasedList_def exampleEnv_common fetchJson_def seoul_def) 
     (simp add: url_defs scenarioFetch_def fetchWithRetry.simps tryBlock_def countResponse_def ok_def
        envelopeOf_def parseAPIResponse_def toListResponse_def bodyNumber_def)

lemma scenario_busan:
  "isl (regionCall exampleEnv scenarioFetch busan)"
  by (simp add: regionCall_def getAreaBasedList_def exampleEnv_common fetchJson_def busan_def) 
     (simp add: url_defs scenarioFetch_def fetchWithRetry.simps tryBlock_def networkError_def
        MAX_RETRIES_def)

lemma scenario_jeju:
  "regionCall exampleEnv scenarioFetch jeju =
     Inr \<lparr>tl_items = [], tl_totalCount = 100, tl_numOfRows = 1, tl_pageNo = 1\<rparr>"
  by (simp add: regionCall_def getAreaBasedList_def exampleEnv_common fetchJson_def jeju_def) 
     (simp add: url_defs scenarioFetch_def fetchWithRetry.simps tryBlock_def countResponse_def ok_def
        envelopeOf_def parseAPIResponse_def toListResponse_def bodyNumber_def)

text \<open>
  The theorem at the example upstream: the region whose call fails (Busan) is omitted and
  logged, the two others are returned; and with an unreachable area-code lookup the whole
  call fails with the error of the lookup.
\<close>

theorem getRegionStats_partial_failure_witness:
  "fst (getRegionStats exampleEnv scenarioFetch scenarioFetch) =
     Inr [\<lparr>r_areaCode = ascii ''1'', r_name = [0xC11C, 0xC6B8], r_count = 100\<rparr>,
          \<lparr>r_areaCode = ascii ''39'', r_name = [0xC81C, 0xC8FC], r_count = 100\<rparr>]
 \<and> snd (getRegionStats exampleEnv scenarioFetch scenarioFetch) =
     [regionFailureLog exampleEnv scenarioFetch busan]
 \<and> getRegionStats exampleEnv offlineFetch scenarioFetch =
     (Inl (maxRetryError 3 networkError), [])"
proof -
  have off: "fst (getAreaCode exampleEnv offlineFetch \<lparr>ac_numOfRows = Some 100, ac_pageNo = Some 1\<rparr>) =
     Inl (maxRetryError 3 networkError)"
  proof -
    have "fetchWithRetry offlineFetch url 0 = (Inl (maxRetryError 3 networkError), backoffTrace url 3)"
      for url
      by (intro fetchWithRetry_exhausts)
         (simp_all add: offlineFetch_def failsOtherwise_def tryBlock_def isAbortError_def
            networkError_def ascii_def)
    then show ?thesis
      by (simp add: getAreaCode_def exampleEnv_common fetchJson_def Let_def catchClause_def
            maxRetryError_def)
  qed
  show ?thesis
    using getRegionStats_partial_failure [of exampleEnv scenarioFetch scenarioFetch]
          getRegionStats_partial_failure [of exampleEnv offlineFetch scenarioFetch]
          scenario_areaCodes off
    by (simp add: scenario_seoul scenario_busan scenario_jeju) (simp add: seoul_def jeju_def)
qed

section \<open>Properties of the statistics by content type\<close>

subsection \<open>Rounding in double arithmetic\<close>

lemma roundTiesToEven_error: "\<bar>of_int (roundTiesToEven y) - y\<bar> \<le> 1 / 2"
proof -
  have "of_int \<lfloor>y\<rfloor> \<le> y" "y < of_int \<lfloor>y\<rfloor> + 1" by linarith+
  then show ?thesis
    by (auto simp: roundTiesToEven_def Let_def abs_le_iff)
qed

text \<open>
  \<open>binExponent\<close> is the exponent of the binade of a positive rational, so \<open>toDouble\<close>
  rounds to 53 significant bits; its relative error is at most \<open>2^-53\<close>.
\<close>

lemma binExponent_le:
  assumes "0 < x"
  shows "2 powi (binExponent x) \<le> x"
proof -
  obtain p q where pq: "quotient_of x = (p, q)" by (cases "quotient_of x")
  then have q: "0 < q" and x: "x = of_int p / of_int q"
    by (auto dest: quotient_of_denom_pos quotient_of_div)
  with assms have p: "0 < p" by (simp add: zero_less_divide_iff)
  define bp where "bp = floorlog 2 (nat p)"
  define bq where "bq = floorlog 2 (nat q)"
  have bp: "2 ^ (bp - 1) \<le> nat p" and bq: "nat q < 2 ^ bq"
    using floorlog_bounds [of "nat p" 2] floorlog_bounds [of "nat q" 2] p q
    by (simp_all add: bp_def bq_def)
  have bp1: "1 \<le> bp" using p by (simp add: bp_def floorlog_def)
  have "(2::rat) powi (int bp - int bq - 1) = 2 ^ (bp - 1) / 2 ^ bq"
  proof -
    have i: "int bp - int bq - 1 = int (bp - 1) - int bq" using bp1 by simp
    have "(2::rat) powi (int bp - int bq - 1) = 2 powi (int (bp - 1) - int bq)"
      by (simp only: i)
    also have "\<dots> = 2 powi int (bp - 1) / 2 powi int bq"
      by (rule power_int_diff) simp
    finally show ?thesis by simp
  qed
  also have "\<dots> \<le> of_int p / 2 ^ bq"
  proof -
    have "(2::rat) ^ (bp - 1) \<le> of_nat (nat p)" using bp by (metis of_nat_le_iff of_nat_numeral of_nat_power)
    then have "(2::rat) ^ (bp - 1) \<le> of_int p" using p by simp
    then show ?thesis by (simp add: divide_right_mono)
  qed
  also have "\<dots> \<le> of_int p / of_int q"
  proof -
    have "of_nat (nat q) < (2::rat) ^ bq" using bq by (metis of_nat_less_iff of_nat_numeral of_nat_power)
    then have "of_int q \<le> (2::rat) ^ bq" using q by simp
    then show ?thesis using p q by (simp add: frac_le)
  qed
  finally have low: "(2::rat) powi (int bp - int bq - 1) \<le> x" using x by simp
  show ?thesis
    using low pq by (simp add: binExponent_def Let_def bp_def bq_def)
qed

lemma binExponent_less:
  assumes "0 < x"
  shows "x < 2 powi (binExponent x + 1)"
proof -
  obtain p q where pq: "quotient_of x = (p, q)" by (cases "quotient_of x")
  then have q: "0 < q" and x: "x = of_int p / of_int q"
    by (auto dest: quotient_of_denom_pos quotient_of_div)
  with assms have p: "0 < p" by (simp add: zero_less_divide_iff)
  define bp where "bp = floorlog 2 (nat p)"
  define bq where "bq = floorlog 2 (nat q)"
  have bp: "nat p < 2 ^ bp" and bq: "2 ^ (bq - 1) \<le> nat q"
    using floorlog_bounds [of "nat p" 2] floorlog_bounds [of "nat q" 2] p q
    by (simp_all add: bp_def bq_def)
  have bq1: "1 \<le> bq" using q by (simp add: bq_def floorlog_def)
  have "of_nat (nat p) < (2::rat) ^ bp" using bp by (metis of_nat_less_iff of_nat_numeral of_nat_power)
  then have pr: "of_int p < (2::rat) ^ bp" using p by simp
  have "(2::rat) ^ (bq - 1) \<le> of_nat (nat q)" using bq by (metis of_nat_le_iff of_nat_numeral of_nat_power)
  then have qr: "(2::rat) ^ (bq - 1) \<le> of_int q" using q by simp
  have "x < 2 ^ bp / of_int q" unfolding x using pr q by (simp add: divide_strict_right_mono)
  also have "\<dots> \<le> 2 ^ bp / 2 ^ (bq - 1)"
  proof -
    have "(0::rat) < of_int q * 2 ^ (bq - 1)" using q by simp
    with qr show ?thesis by (intro divide_left_mono) simp_all
  qed
  also have "\<dots> = 2 powi (int bp - int bq + 1)"
  proof -
    have i: "int bp - int bq + 1 = int bp - int (bq - 1)" using bq1 by simp
    have "(2::rat) powi (int bp - int (bq - 1)) = 2 powi int bp / 2 powi int (bq - 1)"
      by (rule power_int_diff) simp
    then show ?thesis by (simp only: i) simp
  qed
  finally have up: "x < 2 powi (int bp - int bq + 1)" .
  show ?thesis
  proof (cases "2 powi (int bp - int bq) \<le> x")
    case True
    with up pq show ?thesis by (simp add: binExponent_def Let_def bp_def bq_def)
  next
    case False
    then have "x < 2 powi (int bp - int bq)" by simp
    with False pq show ?thesis by (simp add: binExponent_def Let_def bp_def bq_def)
  qed
qed

lemma toDouble_error:
  assumes "0 \<le> x"
  shows "\<bar>toDouble x - x\<bar> \<le> x / 2 ^ 53"
proof (cases "x = 0")
  case True
  then show ?thesis by (simp add: toDouble_def)
next
  case False
  with assms have pos: "0 < x" by simp
  define e where "e = binExponent x - 52"
  define u :: rat where "u = 2 powi e"
  have u: "0 < u" by (simp add: u_def)
  have td: "toDouble x = of_int (roundTiesToEven (x / u)) * u"
    using False by (simp add: toDouble_def Let_def e_def u_def)
  have "toDouble x - x = (of_int (roundTiesToEven (x / u)) - x / u) * u"
    using u by (simp add: td algebra_simps)
  then have "\<bar>toDouble x - x\<bar> = \<bar>of_int (roundTiesToEven (x / u)) - x / u\<bar> * u"
    using u by (simp add: abs_mult)
  also have "\<dots> \<le> (1 / 2) * u"
    using roundTiesToEven_error [of "x / u"] u by (intro mult_right_mono) simp_all
  also have "\<dots> = 2 powi (binExponent x) / 2 ^ 53"
  proof -
    have "(2::rat) powi (binExponent x - 52) = 2 powi (binExponent x) / 2 ^ 52"
      using power_int_diff [of "2::rat" "binExponent x" 52] by simp
    then show ?thesis by (simp add: u_def e_def)
  qed
  also have "\<dots> \<le> x / 2 ^ 53"
    using binExponent_le [OF pos] by (simp add: divide_right_mono)
  finally show ?thesis .
qed

text \<open>
  The two roundings of the quotient move it by less than the distance between a
  non-tie value with denominator \<open>t \<le> 2^37\<close> and the nearest rounding boundary, so
  \<open>toFixed(2)\<close> picks a hundredth nearest to the exact quotient.
\<close>

lemma nearest_hundredth:
  fixes c t :: nat and z :: rat and n :: int
  assumes t: "0 < t"
    and close: "\<bar>z - 10000 * of_nat c / of_nat t\<bar> < 1 / (2 * of_nat t)"
    and n: "n = \<lfloor>z + 1 / 2\<rfloor>"
  shows "\<bar>of_int n - 10000 * of_nat c / of_nat t\<bar> \<le> (1 / 2 :: rat)"
proof -
  define y :: rat where "y = 10000 * of_nat c / of_nat t"
  define T :: rat where "T = of_nat t"
  have T: "0 < T" using t by (simp add: T_def)
  have yT: "y * T = 10000 * of_nat c" using T by (simp add: y_def T_def)
  have zl: "y - 1 / (2 * T) < z" and zu: "z < y + 1 / (2 * T)"
    using close by (simp_all add: y_def T_def abs_less_iff)
  have nl: "z - 1 / 2 < of_int n" and nu: "of_int n \<le> z + 1 / 2"
    unfolding n by linarith+
  have upper: "of_int n \<le> y + 1 / 2"
  proof (rule ccontr)
    assume "\<not> of_int n \<le> y + 1 / 2"
    then have "y + 1 / 2 < of_int n" by simp
    then have "(y + 1 / 2) * (2 * T) < of_int n * (2 * T)"
      using T by (simp add: mult_less_cancel_right)
    then have "20000 * of_nat c + T < of_int n * (2 * T)"
      using yT by (simp add: algebra_simps)
    then have "(of_int (20000 * int c + int t) :: rat) < of_int (n * (2 * int t))"
      by (simp add: T_def)
    then have "20000 * int c + int t < n * (2 * int t)" by (simp only: of_int_less_iff)
    then have "20000 * int c + int t + 1 \<le> n * (2 * int t)" by simp
    then have "(of_int (20000 * int c + int t + 1) :: rat) \<le> of_int (n * (2 * int t))"
      by (simp only: of_int_le_iff)
    then have "20000 * of_nat c + T + 1 \<le> of_int n * (2 * T)" by (simp add: T_def)
    then have "(y + 1 / 2 + 1 / (2 * T)) * (2 * T) \<le> of_int n * (2 * T)"
      using yT T by (simp add: algebra_simps)
    then have "y + 1 / 2 + 1 / (2 * T) \<le> of_int n"
      using T by (simp add: mult_le_cancel_right)
    with nu zu show False by linarith
  qed
  have lower: "y - 1 / 2 \<le> of_int n"
  proof (rule ccontr)
    assume "\<not> y - 1 / 2 \<le> of_int n"
    then have "of_int n < y - 1 / 2" by simp
    then have "of_int n * (2 * T) < (y - 1 / 2) * (2 * T)"
      using T by (simp add: mult_less_cancel_right)
    then have "of_int n * (2 * T) + T < 20000 * of_nat c"
      using yT by (simp add: algebra_simps)
    then have "(of_int (n * (2 * int t) + int t) :: rat) < of_int (20000 * int c)"
      by (simp add: T_def)
    then have "n * (2 * int t) + int t < 20000 * int c" by (simp only: of_int_less_iff)
    then have "n * (2 * int t) + int t + 1 \<le> 20000 * int c" by simp
    then have "(of_int (n * (2 * int t) + int t + 1) :: rat) \<le> of_int (20000 * int c)"
      by (simp only: of_int_le_iff)
    then have "of_int n * (2 * T) + T + 1 \<le> 20000 * of_nat c" by (simp add: T_def)
    then have "of_int n * (2 * T) \<le> (y - 1 / 2 - 1 / (2 * T)) * (2 * T)"
      using yT T by (simp add: algebra_simps)
    then have "of_int n \<le> y - 1 / 2 - 1 / (2 * T)"
      using T by (simp add: mult_le_cancel_right)
    with nl zl show False by linarith
  qed
  from upper lower show ?thesis unfolding y_def by linarith
qed

lemma percentage_double_error:
  fixes c t :: nat
  assumes t: "0 < t" and c: "c \<le> t"
  shows "\<bar>toDouble (toDouble (of_nat c / of_nat t) * 100) * 100 - 10000 * of_nat c / of_nat t\<bar>
           \<le> 30000 / 2 ^ 53"
proof -
  define r :: rat where "r = of_nat c / of_nat t"
  define q where "q = toDouble r"
  define x where "x = toDouble (q * 100)"
  have r: "0 \<le> r" "r \<le> 1" using t c by (simp_all add: r_def)
  define eps where "eps = r / 2 ^ 53"
  have qe: "\<bar>q - r\<bar> \<le> eps" unfolding q_def eps_def using r(1) by (rule toDouble_error)
  have e1: "eps \<le> 1 / 2 ^ 53" unfolding eps_def using r(2) by (simp add: divide_right_mono)
  with qe have qe1: "\<bar>q - r\<bar> \<le> 1 / 2 ^ 53" by linarith
  have "r / 2 ^ 53 \<le> r / 1" using r(1) by (intro divide_left_mono) simp_all
  then have "eps \<le> r" by (simp add: eps_def)
  with qe have q0: "0 \<le> q" by linarith
  have "eps \<le> 1" using e1 by simp
  with qe r(2) have q2: "q \<le> 2" by linarith
  have "\<bar>x - q * 100\<bar> \<le> q * 100 / 2 ^ 53"
    unfolding x_def using q0 by (intro toDouble_error) simp
  also have "\<dots> \<le> 200 / 2 ^ 53" using q2 by (simp add: divide_right_mono)
  finally have xe: "\<bar>x - q * 100\<bar> \<le> 200 / 2 ^ 53" .
  define E :: rat where "E = 1 / 2 ^ 53"
  from xe have xE: "\<bar>x - q * 100\<bar> \<le> 200 * E" by (simp add: E_def)
  from qe1 have qE: "\<bar>q - r\<bar> \<le> E" by (simp add: E_def)
  from xE qE have "\<bar>x * 100 - 10000 * r\<bar> \<le> 30000 * E" by linarith
  then have "\<bar>x * 100 - 10000 * r\<bar> \<le> 30000 / 2 ^ 53" by (simp add: E_def)
  then show ?thesis by (simp add: x_def q_def r_def)
qed

lemma percentageOf_rounds:
  fixes c t :: nat
  assumes t: "0 < t" and c: "c \<le> t" and bound: "t \<le> 2 ^ 37"
  shows "\<exists>n. percentageOf c t = toDouble (of_int n / 100)
            \<and> \<bar>of_int n / 100 - of_nat c / of_nat t * 100\<bar> \<le> (1 / 200 :: rat)"
proof -
  define z where "z = toDouble (toDouble (of_nat c / of_nat t) * 100) * 100"
  define n where "n = toFixed2 (toDouble (toDouble (of_nat c / of_nat t) * 100))"
  have n: "n = \<lfloor>z + 1 / 2\<rfloor>" by (simp add: n_def z_def toFixed2_def)
  have "(of_nat t :: rat) \<le> of_nat (2 ^ 37)" using bound by (simp only: of_nat_le_iff)
  then have tb: "(of_nat t :: rat) \<le> 2 ^ 37" by simp
  have "\<bar>z - 10000 * of_nat c / of_nat t\<bar> \<le> 30000 / 2 ^ 53"
    unfolding z_def using t c by (rule percentage_double_error)
  also have "(30000 :: rat) / 2 ^ 53 < 1 / 2 ^ 38" by simp
  also have "(1::rat) / 2 ^ 38 \<le> 1 / (2 * of_nat t)"
    using t tb by (simp add: field_simps)
  finally have "\<bar>z - 10000 * of_nat c / of_nat t\<bar> < 1 / (2 * of_nat t)" .
  from nearest_hundredth [OF t this n]
  have m: "\<bar>of_int n - 10000 * of_nat c / of_nat t\<bar> \<le> (1 / 2 :: rat)" .
  have "of_int n / 100 - of_nat c / of_nat t * 100 = (of_int n - 10000 * of_nat c / of_nat t) / (100 :: rat)"
    by (simp add: diff_divide_distrib)
  then have "\<bar>of_int n / 100 - of_nat c / of_nat t * 100\<bar> = \<bar>of_int n - 10000 * of_nat c / of_nat t\<bar> / (100 :: rat)"
    by (simp only: abs_divide)
  also have "\<dots> \<le> (1 / 2) / 100" using m by (intro divide_right_mono) simp_all
  finally have "\<bar>of_int n / 100 - of_nat c / of_nat t * 100\<bar> \<le> (1 / 200 :: rat)" by simp
  moreover have "percentageOf c t = toDouble (of_int n / 100)"
    by (simp add: percentageOf_def n_def)
  ultimately show ?thesis by blast
qed

lemma nearest_int_unique:
  fixes n m :: int and q :: rat
  assumes "\<bar>of_int n / 100 - q\<bar> \<le> 1 / 200"
    and "of_int m - 1 / 2 < 100 * q" and "100 * q < of_int m + 1 / 2"
  shows "n = m"
proof -
  from assms have "(of_int n :: rat) < of_int m + 1" "(of_int m :: rat) < of_int n + 1"
    by linarith+
  then have "(of_int n :: rat) < of_int (m + 1)" "(of_int m :: rat) < of_int (n + 1)" by simp_all
  then have "n < m + 1" "m < n + 1" by (simp_all only: of_int_less_iff)
  then show ?thesis by simp
qed

text \<open>
  Integers below \<open>2^53\<close> are doubles, so the \<open>reduce\<close> that adds the counts is exact as
  long as the sum stays below \<open>2^53\<close>.
\<close>

lemma roundTiesToEven_of_int: "roundTiesToEven (of_int k) = k"
  by (simp add: roundTiesToEven_def Let_def)

lemma toDouble_of_nat:
  assumes "n < 2 ^ 53"
  shows "toDouble (of_nat n) = of_nat n"
proof (cases "n = 0")
  case True
  then show ?thesis by (simp add: toDouble_def)
next
  case False
  define x :: rat where "x = of_nat n"
  define e where "e = binExponent x"
  have pos: "0 < x" using False by (simp add: x_def)
  have "(of_nat n :: rat) < of_nat (2 ^ 53)" using assms by (simp only: of_nat_less_iff)
  then have xb: "x < 2 ^ 53" by (simp add: x_def)
  have e: "e \<le> 52"
  proof (rule ccontr)
    assume "\<not> e \<le> 52"
    then have "53 \<le> e" by simp
    then have "(2::rat) powi 53 \<le> 2 powi e" by (intro power_int_increasing) simp_all
    also have "\<dots> \<le> x" unfolding e_def using pos by (rule binExponent_le)
    finally show False using xb by simp
  qed
  define k where "k = nat (52 - e)"
  have ke: "e - 52 = - int k" using e by (simp add: k_def)
  have s: "(2::rat) powi (e - 52) = 1 / 2 ^ k"
    unfolding ke by (simp add: power_int_minus divide_inverse)
  have "x / 2 powi (e - 52) = of_int (int n * 2 ^ k)" by (simp add: s x_def)
  then have "roundTiesToEven (x / 2 powi (e - 52)) = int n * 2 ^ k"
    by (simp only: roundTiesToEven_of_int)
  then have "toDouble x = of_int (int n * 2 ^ k) * (1 / 2 ^ k)"
    using pos by (simp add: toDouble_def Let_def e_def [symmetric] s)
  then show ?thesis by (simp add: x_def)
qed

lemma plusNumber_exact: "a + b < 2 ^ 53 \<Longrightarrow> plusNumber a b = a + b"
proof -
  assume "a + b < 2 ^ 53"
  then have "toDouble (of_nat (a + b)) = of_nat (a + b)" by (rule toDouble_of_nat)
  then have "toDouble (of_nat a + of_nat b) = of_int (int (a + b))" by simp
  then show ?thesis unfolding plusNumber_def by (simp only: floor_of_int nat_int)
qed

lemma foldl_plusNumber:
  "acc + sum_list (map f xs) < 2 ^ 53 \<Longrightarrow>
     foldl (\<lambda>sum stat. plusNumber sum (f stat)) acc xs = acc + sum_list (map f xs)"
proof (induction xs arbitrary: acc)
  case Nil
  then show ?case by simp
next
  case (Cons x xs)
  then have "acc + f x < 2 ^ 53" by simp
  then have "plusNumber acc (f x) = acc + f x" by (rule plusNumber_exact)
  with Cons show ?case by (simp add: add.assoc)
qed

subsection \<open>The aggregation\<close>

lemma values_CONTENT_TYPE: "map snd CONTENT_TYPE = contentTypeIds"
  by (simp add: CONTENT_TYPE_def contentTypeIds_def)

lemma fulfilledValues_typeStat:
  "fulfilledValues (map (\<lambda>i. fst (typeStat env fetch i)) ids) =
     map (\<lambda>i. \<lparr>t_contentTypeId = i, t_name = typeName i,
                t_count = tl_totalCount (projr (typeCall env fetch i)), t_percentage = 0\<rparr>)
         (filter (\<lambda>i. \<not> isl (typeCall env fetch i)) ids)"
  by (induction ids) (auto simp: typeStat_def typeCall_def split: sum.splits)

lemma logs_typeStat:
  "concat (map (\<lambda>i. snd (typeStat env fetch i)) ids) =
     map (typeFailureLog env fetch) (filter (\<lambda>i. isl (typeCall env fetch i)) ids)"
  by (induction ids)
     (auto simp: typeStat_def typeCall_def typeFailureLog_def split: sum.splits)

lemma getTypeStats_unfold:
  "getTypeStats env fetch =
     (let typeStats = map (\<lambda>i. \<lparr>t_contentTypeId = i, t_name = typeName i,
                t_count = tl_totalCount (projr (typeCall env fetch i)), t_percentage = 0\<rparr>)
              (filter (\<lambda>i. \<not> isl (typeCall env fetch i)) contentTypeIds);
          logs = map (typeFailureLog env fetch) (filter (\<lambda>i. isl (typeCall env fetch i)) contentTypeIds);
          total_count = foldl (\<lambda>sum stat. plusNumber sum (t_count stat)) 0 typeStats
      in if total_count = 0 then (Inr typeStats, logs @ [ConsoleWarn [msg_total_zero]])
         else (Inr (map (\<lambda>stat. stat\<lparr>t_percentage := percentageOf (t_count stat) total_count\<rparr>) typeStats),
               logs))"
  by (simp add: getTypeStats_def Let_def values_CONTENT_TYPE comp_def fulfilledValues_typeStat
        logs_typeStat)

text \<open>
  C8. \<open>getTypeStats\<close> always succeeds. It makes one listing call for each of the eight
  content types and returns the statistics of the types whose call succeeded, in that
  order, each with the \<open>totalCount\<close> of its call. When the sum of the returned counts is
  zero, every percentage is 0. Otherwise (for sums up to \<open>2^37\<close>, far above any count of
  the service) the percentage of a type is the double nearest to \<open>n / 100\<close>, where
  \<open>n / 100\<close> is within half a hundredth of its count divided by the sum of the returned
  counts and multiplied by 100: that quotient rounded to 2 decimals.
\<close>

theorem getTypeStats_percentages:
  "\<exists>stats. fst (getTypeStats env fetch) = Inr stats
     \<and> map t_contentTypeId stats = filter (\<lambda>i. \<not> isl (typeCall env fetch i)) contentTypeIds
     \<and> map t_count stats =
          map (\<lambda>i. tl_totalCount (projr (typeCall env fetch i)))
              (filter (\<lambda>i. \<not> isl (typeCall env fetch i)) contentTypeIds)
     \<and> (sum_list (map t_count stats) = 0 \<longrightarrow> (\<forall>s\<in>set stats. t_percentage s = 0))
     \<and> (0 < sum_list (map t_count stats) \<and> sum_list (map t_count stats) \<le> 2 ^ 37 \<longrightarrow>
          (\<forall>s\<in>set stats. \<exists>n.
              t_percentage s = toDouble (of_int n / 100)
            \<and> \<bar>of_int n / 100 - of_nat (t_count s) / of_nat (sum_list (map t_count stats)) * 100\<bar>
                 \<le> (1 / 200 :: rat)))"
proof -
  define typeStats where
    "typeStats = map (\<lambda>i. \<lparr>t_contentTypeId = i, t_name = typeName i,
                t_count = tl_totalCount (projr (typeCall env fetch i)), t_percentage = 0\<rparr>)
              (filter (\<lambda>i. \<not> isl (typeCall env fetch i)) contentTypeIds)"
  define tc where "tc = sum_list (map t_count typeStats)"
  define td where "td = foldl (\<lambda>sum stat. plusNumber sum (t_count stat)) 0 typeStats"
  define stats where
    "stats = (if td = 0 then typeStats
              else map (\<lambda>stat. stat\<lparr>t_percentage := percentageOf (t_count stat) td\<rparr>) typeStats)"
  have td: "td = tc" if "tc < 2 ^ 53"
    using that foldl_plusNumber [of 0 t_count typeStats] by (simp add: td_def tc_def)
  have res: "fst (getTypeStats env fetch) = Inr stats"
    by (simp add: getTypeStats_unfold Let_def stats_def td_def typeStats_def)
  have ids: "map t_contentTypeId stats = filter (\<lambda>i. \<not> isl (typeCall env fetch i)) contentTypeIds"
    by (simp add: stats_def typeStats_def comp_def)
  have counts: "map t_count stats = map t_count typeStats"
    by (simp add: stats_def comp_def)
  have counts': "map t_count typeStats =
          map (\<lambda>i. tl_totalCount (projr (typeCall env fetch i)))
              (filter (\<lambda>i. \<not> isl (typeCall env fetch i)) contentTypeIds)"
    by (simp add: typeStats_def comp_def)
  have total: "sum_list (map t_count stats) = tc" by (simp add: counts tc_def)
  have zero: "\<forall>s\<in>set stats. t_percentage s = 0" if "tc = 0"
  proof -
    from that have "td = 0" using td by simp
    then show ?thesis by (auto simp: stats_def typeStats_def)
  qed
  have pct: "\<exists>n. t_percentage s = toDouble (of_int n / 100)
            \<and> \<bar>of_int n / 100 - of_nat (t_count s) / of_nat tc * 100\<bar> \<le> (1 / 200 :: rat)"
    if "0 < tc" "tc \<le> 2 ^ 37" "s \<in> set stats" for s
  proof -
    have "tc < 2 ^ 53" using that(2) by (rule le_less_trans) simp
    then have eq: "td = tc" by (rule td)
    from that(1,3) obtain stat where stat: "stat \<in> set typeStats"
      and s: "s = stat\<lparr>t_percentage := percentageOf (t_count stat) tc\<rparr>"
      by (auto simp: stats_def eq)
    have "t_count stat \<in> set (map t_count typeStats)" using stat by simp
    then have "t_count stat \<le> tc" unfolding tc_def by (intro member_le_sum_list) simp_all
    from percentageOf_rounds [OF that(1) this that(2)] show ?thesis by (simp add: s)
  qed
  show ?thesis
    using res ids counts counts' zero pct unfolding total [symmetric]
    by (intro exI [of _ stats]) (simp add: total)
qed

lemma scenario_type_12:
  "typeCall exampleEnv scenarioFetch (ascii ''12'') =
     Inr \<lparr>tl_items = [], tl_totalCount = 100, tl_numOfRows = 1, tl_pageNo = 1\<rparr>"
  by (simp add: typeCall_def getAreaBasedList_def exampleEnv_common fetchJson_def) 
     (simp add: url_defs scenarioFetch_def fetchWithRetry.simps tryBlock_def countResponse_def ok_def
        envelopeOf_def parseAPIResponse_def toListResponse_def bodyNumber_def)

lemma scenario_type_14:
  "typeCall exampleEnv scenarioFetch (ascii ''14'') =
     Inr \<lparr>tl_items = [], tl_totalCount = 100, tl_numOfRows = 1, tl_pageNo = 1\<rparr>"
  by (simp add: typeCall_def getAreaBasedList_def exampleEnv_common fetchJson_def) 
     (simp add: url_defs scenarioFetch_def fetchWithRetry.simps tryBlock_def countResponse_def ok_def
        envelopeOf_def parseAPIResponse_def toListResponse_def bodyNumber_def)

lemma scenario_type_15:
  "typeCall exampleEnv scenarioFetch (ascii ''15'') =
     Inr \<lparr>tl_items = [], tl_totalCount = 100, tl_numOfRows = 1, tl_pageNo = 1\<rparr>"
  by (simp add: typeCall_def getAreaBasedList_def exampleEnv_common fetchJson_def) 
     (simp add: url_defs scenarioFetch_def fetchWithRetry.simps tryBlock_def countResponse_def ok_def
        envelopeOf_def parseAPIResponse_def toListResponse_def bodyNumber_def)

lemma scenario_type_25:
  "isl (typeCall exampleEnv scenarioFetch (ascii ''25''))"
  by (simp add: typeCall_def getAreaBasedList_def exampleEnv_common fetchJson_def) 
     (simp add: url_defs scenarioFetch_def fetchWithRetry.simps tryBlock_def networkError_def
        MAX_RETRIES_def)

lemma scenario_type_28:
  "typeCall exampleEnv scenarioFetch (ascii ''28'') =
     Inr \<lparr>tl_items = [], tl_totalCount = 100, tl_numOfRows = 1, tl_pageNo = 1\<rparr>"
  by (simp add: typeCall_def getAreaBasedList_def exampleEnv_common fetchJson_def) 
     (simp add: url_defs scenarioFetch_def fetchWithRetry.simps tryBlock_def countResponse_def ok_def
        envelopeOf_def parseAPIResponse_def toListResponse_def bodyNumber_def)

lemma scenario_type_32:
  "typeCall exampleEnv scenarioFetch (ascii ''32'') =
     Inr \<lparr>tl_items = [], tl_totalCount = 100, tl_numOfRows = 1, tl_pageNo = 1\<rparr>"
  by (simp add: typeCall_def getAreaBasedList_def exampleEnv_common fetchJson_def) 
     (simp add: url_defs scenarioFetch_def fetchWithRetry.simps tryBlock_def countResponse_def ok_def
        envelopeOf_def parseAPIResponse_def toListResponse_def bodyNumber_def)

lemma scenario_type_38:
  "typeCall exampleEnv scenarioFetch (ascii ''38'') =
     Inr \<lparr>tl_items = [], tl_totalCount = 100, tl_numOfRows = 1, tl_pageNo = 1\<rparr>"
  by (simp add: typeCall_def getAreaBasedList_def exampleEnv_common fetchJson_def) 
     (simp add: url_defs scenarioFetch_def fetchWithRetry.simps tryBlock_def countResponse_def ok_def
        envelopeOf_def parseAPIResponse_def toListResponse_def bodyNumber_def)

lemma scenario_type_39:
  "typeCall exampleEnv scenarioFetch (ascii ''39'') =
     Inr \<lparr>tl_items = [], tl_totalCount = 500, tl_numOfRows = 1, tl_pageNo = 1\<rparr>"
  by (simp add: typeCall_def getAreaBasedList_def exampleEnv_common fetchJson_def) 
     (simp add: url_defs scenarioFetch_def fetchWithRetry.simps tryBlock_def countResponse_def ok_def
        envelopeOf_def parseAPIResponse_def toListResponse_def bodyNumber_def)

lemma scenario_succeeded:
  "filter (\<lambda>i. \<not> isl (typeCall exampleEnv scenarioFetch i)) contentTypeIds =
     map ascii [''12'', ''14'', ''15'', ''28'', ''32'', ''38'', ''39'']"
  by (simp add: contentTypeIds_def scenario_type_12 scenario_type_14 scenario_type_15 scenario_type_25 scenario_type_28 scenario_type_32 scenario_type_38 scenario_type_39)

text \<open>
  The theorem at the example upstream: content type 25 is omitted, and the percentages
  over the remaining sum of 1100 are 9.09 for a count of 100 and 45.45 for the count of
  500.
\<close>

theorem getTypeStats_percentages_witness:
  "\<exists>stats. fst (getTypeStats exampleEnv scenarioFetch) = Inr stats
     \<and> map t_contentTypeId stats = map ascii [''12'', ''14'', ''15'', ''28'', ''32'', ''38'', ''39'']
     \<and> map t_count stats = [100, 100, 100, 100, 100, 100, 500]
     \<and> map t_percentage stats =
          [toDouble (909 / 100), toDouble (909 / 100), toDouble (909 / 100), toDouble (909 / 100),
           toDouble (909 / 100), toDouble (909 / 100), toDouble (4545 / 100)]"
proof -
  from getTypeStats_percentages [of exampleEnv scenarioFetch] obtain stats where
    res: "fst (getTypeStats exampleEnv scenarioFetch) = Inr stats"
    and ids: "map t_contentTypeId stats =
                filter (\<lambda>i. \<not> isl (typeCall exampleEnv scenarioFetch i)) contentTypeIds"
    and cnt: "map t_count stats =
          map (\<lambda>i. tl_totalCount (projr (typeCall exampleEnv scenarioFetch i)))
              (filter (\<lambda>i. \<not> isl (typeCall exampleEnv scenarioFetch i)) contentTypeIds)"
    and pct: "0 < sum_list (map t_count stats) \<and> sum_list (map t_count stats) \<le> 2 ^ 37 \<longrightarrow>
          (\<forall>s\<in>set stats. \<exists>n.
              t_percentage s = toDouble (of_int n / 100)
            \<and> \<bar>of_int n / 100 - of_nat (t_count s) / of_nat (sum_list (map t_count stats)) * 100\<bar>
                 \<le> (1 / 200 :: rat))"
    by blast
  have c: "map t_count stats = [100, 100, 100, 100, 100, 100, 500]"
    unfolding cnt scenario_succeeded by (simp add: scenario_type_12 scenario_type_14 scenario_type_15 scenario_type_25 scenario_type_28 scenario_type_32 scenario_type_38 scenario_type_39)
  then have total: "sum_list (map t_count stats) = 1100" by simp
  have each: "t_percentage s = (if t_count s = 500 then toDouble (4545 / 100) else toDouble (909 / 100))"
    if s: "s \<in> set stats" for s
  proof -
    from pct total s obtain n where
      n: "t_percentage s = toDouble (of_int n / 100)"
         "\<bar>of_int n / 100 - of_nat (t_count s) / 1100 * 100\<bar> \<le> (1 / 200 :: rat)"
      by auto
    have "t_count s \<in> set (map t_count stats)" using s by simp
    then consider "t_count s = 100" | "t_count s = 500" unfolding c by auto
    then show ?thesis
    proof cases
      case 1
      with n(2) have "n = 909" by (intro nearest_int_unique [of n "100 / 1100 * 100"]) simp_all
      with n(1) 1 show ?thesis by simp
    next
      case 2
      with n(2) have "n = 4545" by (intro nearest_int_unique [of n "500 / 1100 * 100"]) simp_all
      with n(1) 2 show ?thesis by simp
    qed
  qed
  have "map t_percentage stats =
      map (\<lambda>k. if k = 500 then toDouble (4545 / 100) else toDouble (909 / 100)) (map t_count stats)"
    using each by (simp add: comp_def)
  then have "map t_percentage stats =
          [toDouble (909 / 100), toDouble (909 / 100), toDouble (909 / 100), toDouble (909 / 100),
           toDouble (909 / 100), toDouble (909 / 100), toDouble (4545 / 100)]"
    unfolding c by simp
  with res ids c show ?thesis unfolding scenario_succeeded
    by (intro exI [of _ stats]) simp
qed

section \<open>Properties of the summary\<close>

lemma mset_insertWith: "mset (insertWith cmp x ys) = add_mset x (mset ys)"
  by (induction ys) simp_all

lemma mset_sortWith: "mset (sortWith cmp xs) = mset xs"
  unfolding sortWith_def by (induction xs) (simp_all add: mset_insertWith)

lemma set_insertWith: "set (insertWith cmp x ys) = insert x (set ys)"
  using mset_insertWith [of cmp x ys] by (metis set_mset_add_mset_insert set_mset_mset)

lemma sorted_insertWith:
  assumes "sorted_wrt (\<lambda>a b. k b \<le> k a) ys"
  shows "sorted_wrt (\<lambda>a b. k b \<le> k a) (insertWith (\<lambda>a b. int (k b) - int (k a)) x ys)"
  using assms by (induction ys) (auto simp: set_insertWith)

lemma sorted_sortWith:
  "sorted_wrt (\<lambda>a b. k b \<le> k a) (sortWith (\<lambda>a b. int (k b) - int (k a)) (xs :: 'a list))"
  for k :: "'a \<Rightarrow> nat"
  unfolding sortWith_def by (induction xs) (simp_all add: sorted_insertWith)

lemma length_sortWith: "length (sortWith cmp xs) = length xs"
  using mset_sortWith [of cmp xs] by (metis size_mset)

lemma sorted_wrt_take: "sorted_wrt P xs \<Longrightarrow> sorted_wrt P (take n xs)"
  by (metis append_take_drop_id sorted_wrt_append)

lemma getStatsSummary_success:
  assumes "fst (getRegionStats env fetchArea fetchList) = Inr regionStats"
    and "fst (getTypeStats env fetchList) = Inr typeStats"
  shows "fst (getStatsSummary env fetchArea fetchList now) =
     Inr \<lparr>totalCount_s = foldl (\<lambda>sum stat. plusNumber sum (t_count stat)) 0 typeStats,
          topRegions = take 3 (sortWith (\<lambda>a b. int (r_count b) - int (r_count a)) regionStats),
          topTypes = take 3 (sortWith (\<lambda>a b. int (t_count b) - int (t_count a)) typeStats),
          lastUpdated = now\<rparr>"
  using assms
  by (cases "getRegionStats env fetchArea fetchList"; cases "getTypeStats env fetchList")
     (simp add: getStatsSummary_def)

text \<open>
  C9. When both aggregations succeed, \<open>getStatsSummary\<close> succeeds; \<open>topRegions\<close> and
  \<open>topTypes\<close> are the first three of the region and type statistics rearranged in
  descending order of \<open>count\<close>, so each is sorted in descending order and has length
  \<open>min 3\<close> of the number of available statistics; \<open>totalCount\<close> is the sum of the type
  counts, as long as that sum is below \<open>2^53\<close>, where the double additions of the \<open>reduce\<close>
  are exact.
\<close>

theorem getStatsSummary_top3:
  assumes "fst (getRegionStats env fetchArea fetchList) = Inr regionStats"
    and "fst (getTypeStats env fetchList) = Inr typeStats"
  shows "\<exists>summary rs ts.
           fst (getStatsSummary env fetchArea fetchList now) = Inr summary
         \<and> mset rs = mset regionStats \<and> sorted_wrt (\<lambda>a b. r_count b \<le> r_count a) rs
         \<and> topRegions summary = take 3 rs
         \<and> sorted_wrt (\<lambda>a b. r_count b \<le> r_count a) (topRegions summary)
         \<and> length (topRegions summary) = min 3 (length regionStats)
         \<and> mset ts = mset typeStats \<and> sorted_wrt (\<lambda>a b. t_count b \<le> t_count a) ts
         \<and> topTypes summary = take 3 ts
         \<and> sorted_wrt (\<lambda>a b. t_count b \<le> t_count a) (topTypes summary)
         \<and> length (topTypes summary) = min 3 (length typeStats)
         \<and> (sum_list (map t_count typeStats) < 2 ^ 53 \<longrightarrow>
              totalCount_s summary = sum_list (map t_count typeStats))"
proof -
  define rs where "rs = sortWith (\<lambda>a b. int (r_count b) - int (r_count a)) regionStats"
  define ts where "ts = sortWith (\<lambda>a b. int (t_count b) - int (t_count a)) typeStats"
  define summary where
    "summary = \<lparr>totalCount_s = foldl (\<lambda>sum stat. plusNumber sum (t_count stat)) 0 typeStats,
                topRegions = take 3 rs, topTypes = take 3 ts, lastUpdated = now\<rparr>"
  have "fst (getStatsSummary env fetchArea fetchList now) = Inr summary"
    using assms(1,2)
    by (cases "getRegionStats env fetchArea fetchList"; cases "getTypeStats env fetchList")
       (simp add: getStatsSummary_def summary_def rs_def ts_def)
  moreover have "mset rs = mset regionStats" "mset ts = mset typeStats"
    by (simp_all add: rs_def ts_def mset_sortWith)
  moreover have "sorted_wrt (\<lambda>a b. r_count b \<le> r_count a) rs"
    "sorted_wrt (\<lambda>a b. t_count b \<le> t_count a) ts"
    unfolding rs_def ts_def by (rule sorted_sortWith)+
  moreover have "length (topRegions summary) = min 3 (length regionStats)"
    "length (topTypes summary) = min 3 (length typeStats)"
    by (simp_all add: summary_def rs_def ts_def length_sortWith min.commute)
  moreover have "sum_list (map t_count typeStats) < 2 ^ 53 \<longrightarrow>
      totalCount_s summary = sum_list (map t_count typeStats)"
    using foldl_plusNumber [of 0 t_count typeStats] by (simp add: summary_def)
  moreover have "topRegions summary = take 3 rs" "topTypes summary = take 3 ts"
    by (simp_all add: summary_def)
  moreover have "sorted_wrt (\<lambda>a b. r_count b \<le> r_count a) (take 3 rs)"
    "sorted_wrt (\<lambda>a b. t_count b \<le> t_count a) (take 3 ts)"
    unfolding rs_def ts_def by (intro sorted_wrt_take sorted_sortWith)+
  ultimately show ?thesis by (metis (no_types, lifting))
qed

lemma scenario_regionStats:
  "fst (getRegionStats exampleEnv scenarioFetch scenarioFetch) =
     Inr [\<lparr>r_areaCode = ascii ''1'', r_name = [0xC11C, 0xC6B8], r_count = 100\<rparr>,
          \<lparr>r_areaCode = ascii ''39'', r_name = [0xC81C, 0xC8FC], r_count = 100\<rparr>]"
  by (simp add: getRegionStats_success [OF scenario_areaCodes] scenario_seoul scenario_busan scenario_jeju)
     (simp add: seoul_def jeju_def)

lemma scenario_typeStats:
  "fst (getTypeStats exampleEnv scenarioFetch) =
     Inr (map (\<lambda>(i, c). \<lparr>t_contentTypeId = ascii i, t_name = typeName (ascii i), t_count = c,
                          t_percentage = percentageOf c 1100\<rparr>)
            [(''12'', 100), (''14'', 100), (''15'', 100), (''28'', 100), (''32'', 100),
             (''38'', 100), (''39'', 500)])"
  by (simp add: getTypeStats_unfold scenario_succeeded Let_def plusNumber_exact
        scenario_type_12 scenario_type_14 scenario_type_15 scenario_type_25 scenario_type_28
        scenario_type_32 scenario_type_38 scenario_type_39)

text \<open>
  The theorem at the example upstream: two regions are available, so \<open>topRegions\<close> has
  length 2; the top three types are 39 (500), then 12 and 14 (100 each, in their original
  order); \<open>totalCount\<close> is 1100.
\<close>

theorem getStatsSummary_top3_witness:
  "\<exists>summary. fst (getStatsSummary exampleEnv scenarioFetch scenarioFetch 0) = Inr summary
     \<and> map r_areaCode (topRegions summary) = [ascii ''1'', ascii ''39'']
     \<and> map r_count (topRegions summary) = [100, 100]
     \<and> map t_contentTypeId (topTypes summary) = [ascii ''39'', ascii ''12'', ascii ''14'']
     \<and> map t_count (topTypes summary) = [500, 100, 100]
     \<and> length (topRegions summary) = 2 \<and> length (topTypes summary) = 3
     \<and> totalCount_s summary = 1100"
proof -
  have bound: "sum_list (map t_count
          (map (\<lambda>(i, c). \<lparr>t_contentTypeId = ascii i, t_name = typeName (ascii i), t_count = c,
                          t_percentage = percentageOf c 1100\<rparr>)
            [(''12'', 100), (''14'', 100), (''15'', 100), (''28'', 100), (''32'', 100),
             (''38'', 100), (''39'', 500 :: nat)])) < 2 ^ 53"
    by simp
  from getStatsSummary_top3 [OF scenario_regionStats scenario_typeStats, of 0] bound
  obtain summary where
    res: "fst (getStatsSummary exampleEnv scenarioFetch scenarioFetch 0) = Inr summary"
    and len: "length (topRegions summary) = 2" "length (topTypes summary) = 3"
    and total: "totalCount_s summary = 1100"
    by auto
  from getStatsSummary_success [OF scenario_regionStats scenario_typeStats, of 0] res
  have eq: "summary =
     \<lparr>totalCount_s = foldl (\<lambda>sum stat. plusNumber sum (t_count stat)) 0
          (map (\<lambda>(i, c). \<lparr>t_contentTypeId = ascii i, t_name = typeName (ascii i), t_count = c,
                          t_percentage = percentageOf c 1100\<rparr>)
            [(''12'', 100), (''14'', 100), (''15'', 100), (''28'', 100), (''32'', 100),
             (''38'', 100), (''39'', 500)]),
          topRegions = take 3 (sortWith (\<lambda>a b. int (r_count b) - int (r_count a))
            [\<lparr>r_areaCode = ascii ''1'', r_name = [0xC11C, 0xC6B8], r_count = 100\<rparr>,
             \<lparr>r_areaCode = ascii ''39'', r_name = [0xC81C, 0xC8FC], r_count = 100\<rparr>]),
          topTypes = take 3 (sortWith (\<lambda>a b. int (t_count b) - int (t_count a))
          (map (\<lambda>(i, c). \<lparr>t_contentTypeId = ascii i, t_name = typeName (ascii i), t_count = c,
                          t_percentage = percentageOf c 1100\<rparr>)
            [(''12'', 100), (''14'', 100), (''15'', 100), (''28'', 100), (''32'', 100),
             (''38'', 100), (''39'', 500)])),
          lastUpdated = 0\<rparr>"
    by simp
  have tops: "map r_areaCode (topRegions summary) = [ascii ''1'', ascii ''39'']"
    "map r_count (topRegions summary) = [100, 100]"
    "map t_contentTypeId (topTypes summary) = [ascii ''39'', ascii ''12'', ascii ''14'']"
    "map t_count (topTypes summary) = [500, 100, 100]"
    unfolding eq by (simp_all add: sortWith_def)
  with res len total show ?thesis by (intro exI [of _ summary]) simp
qed

end
